theory Spec2Isabelle
  imports Main
begin

section \<open>Promises\<close>

text \<open>
  The engine of \<^verbatim>\<open>lib/atom-package-sync.js\<close> is written with promises. A promise is
  modelled by the state it finally reaches: fulfilled with a value, rejected with an
  error, or pending for ever (nobody ever calls its \<^verbatim>\<open>resolve\<close> or \<^verbatim>\<open>reject\<close>).
  An asynchronous operation takes the program state and returns the final state of its
  promise together with the program state it leaves behind.
\<close>

type_synonym err = string

datatype 'a promise = Fulfilled 'a | Rejected err | Pending

type_synonym ('a, 's) async = "'s \<Rightarrow> 'a promise \<times> 's"

text \<open>\<^verbatim>\<open>p.then(f)\<close>: \<^verbatim>\<open>f\<close> runs on the value of a fulfilled \<^verbatim>\<open>p\<close>; a rejection passes
  through; a promise that stays pending never runs \<^verbatim>\<open>f\<close>.\<close>

definition promise_then :: "('a, 's) async \<Rightarrow> ('a \<Rightarrow> ('b, 's) async) \<Rightarrow> ('b, 's) async" where
  "promise_then p f s =
     (case p s of
        (Fulfilled a, s') \<Rightarrow> f a s'
      | (Rejected e, s') \<Rightarrow> (Rejected e, s')
      | (Pending, s') \<Rightarrow> (Pending, s'))"

text \<open>\<^verbatim>\<open>p.catch(h)\<close>: \<^verbatim>\<open>h\<close> runs on the error of a rejected \<^verbatim>\<open>p\<close>.\<close>

definition promise_catch :: "('a, 's) async \<Rightarrow> (err \<Rightarrow> ('a, 's) async) \<Rightarrow> ('a, 's) async" where
  "promise_catch p h s =
     (case p s of
        (Fulfilled a, s') \<Rightarrow> (Fulfilled a, s')
      | (Rejected e, s') \<Rightarrow> h e s'
      | (Pending, s') \<Rightarrow> (Pending, s'))"

text \<open>The promise returned by a collaborator settles: it is fulfilled or rejected.\<close>

fun settle :: "err + 'a \<Rightarrow> 'a promise" where
  "settle (Inl e) = Rejected e"
| "settle (Inr a) = Fulfilled a"

section \<open>Change records\<close>

type_synonym package = string
type_synonym settings = string
type_synonym files = string
type_synonym timestamp = nat

text \<open>
  \<^verbatim>\<open>SyncStatus\<close> is exported by \<^verbatim>\<open>./get-sync-changes\<close>. The eight members that
  \<^verbatim>\<open>sync()\<close> names in its \<^verbatim>\<open>switch\<close> are pairwise distinct values;
  \<open>OtherStatus\<close> stands for any status value that is equal to none of them.
\<close>

datatype SyncStatus =
    FirstTimeConnect
  | AddPackagesFromClient
  | RemovePackagesFromClient
  | SettingsChangedFromClient
  | AddPackagesFromServer
  | RemovePackagesFromServer
  | PackageSettingsChangedFromServer
  | NewAtomInstance
  | OtherStatus nat

record change =
  status :: SyncStatus
  packages :: "package list"
  packageSettings :: settings
  lastUpdate :: timestamp

section \<open>Collaborators\<close>

text \<open>
  The local store (\<^verbatim>\<open>AtomSettingsManager\<close>), the remote store (\<^verbatim>\<open>QuantalApi\<close>) and the
  change detector (\<^verbatim>\<open>getSyncChanges\<close>) are collaborators of the engine. They are
  parameters of the model: functions on a world \<open>'w\<close> that holds whatever they read and
  write. The calls that return a promise (\<^verbatim>\<open>getSyncChanges\<close>, \<^verbatim>\<open>installMissingPackages\<close>,
  \<^verbatim>\<open>uninstallPackages\<close>, \<^verbatim>\<open>fetchAtomSettingsInfo\<close>, \<^verbatim>\<open>saveAtomSettings\<close>) return
  \<open>Inl\<close> for a rejection and \<open>Inr\<close> for a fulfilment; the calls that return at once
  (\<^verbatim>\<open>applyPackageSettings\<close>, \<^verbatim>\<open>setLastUpdate\<close> and \<^verbatim>\<open>getFiles\<close> of the settings manager)
  return normally. The method \<^verbatim>\<open>applyPackageSettings\<close> of the settings manager is
  \<open>asm_applyPackageSettings\<close> here, the method of the engine keeps its name.
\<close>

record atomSettingsInfo =
  info_lastUpdate :: timestamp

record saveResult =
  success :: bool  \<comment> \<open>\<^verbatim>\<open>result.success === true\<close>\<close>
  result_lastUpdate :: timestamp

record 'w collaborators =
  getSyncChanges :: "'w \<Rightarrow> (err + change list) \<times> 'w"
  installMissingPackages :: "package list \<Rightarrow> 'w \<Rightarrow> (err + unit) \<times> 'w"
  uninstallPackages :: "package list \<Rightarrow> 'w \<Rightarrow> (err + unit) \<times> 'w"
  asm_applyPackageSettings :: "settings \<Rightarrow> 'w \<Rightarrow> 'w"
  setLastUpdate :: "timestamp \<Rightarrow> 'w \<Rightarrow> 'w"
  getFiles :: "'w \<Rightarrow> files"
  fetchAtomSettingsInfo :: "'w \<Rightarrow> (err + atomSettingsInfo) \<times> 'w"
  saveAtomSettings :: "files \<Rightarrow> 'w \<Rightarrow> (err + saveResult) \<times> 'w"

section \<open>Engine state\<close>

text \<open>Every call of a collaborator, every console line and every notification is
  recorded, in order, in the trace of the state.\<close>

datatype event =
    ConsoleLog string
  | ConsoleLogChanges "change list"
  | ConsoleError string err
  | NotifySuccess string
  | Call_getSyncChanges
  | Call_installMissingPackages "package list"
  | Call_uninstallPackages "package list"
  | Call_applyPackageSettings settings
  | Call_setLastUpdate timestamp
  | Call_getFiles
  | Call_fetchAtomSettingsInfo
  | Call_saveAtomSettings files

text \<open>\<^verbatim>\<open>this.autocheckTimer\<close> is \<^verbatim>\<open>undefined\<close> until the first assignment, the handle
  returned by \<^verbatim>\<open>setInterval\<close>, or \<^verbatim>\<open>false\<close> after \<^verbatim>\<open>stopAutoUpdateCheck\<close>.\<close>

datatype timer_field = TimerUndefined | TimerFalse | TimerHandle nat

fun truthy :: "timer_field \<Rightarrow> bool" where
  "truthy TimerUndefined = False"
| "truthy TimerFalse = False"
| "truthy (TimerHandle h) = (h \<noteq> 0)"

record 'w state =
  syncLock :: bool  \<comment> \<open>\<^verbatim>\<open>this._stateManager.syncLock\<close>\<close>
  autocheckTimer :: timer_field
  timers :: "nat list"  \<comment> \<open>the interval timers that are active in the runtime\<close>
  lastTimer :: nat  \<comment> \<open>the last handle that \<^verbatim>\<open>setInterval\<close> returned\<close>
  world :: 'w
  trace :: "event list"

definition emit :: "event \<Rightarrow> 'w state \<Rightarrow> 'w state" where
  "emit ev s = s\<lparr>trace := trace s @ [ev]\<rparr>"

text \<open>A collaborator call that returns a promise, and one that returns at once.\<close>

definition call_async :: "event \<Rightarrow> ('w \<Rightarrow> (err + 'a) \<times> 'w) \<Rightarrow> ('a, 'w state) async" where
  "call_async ev f s =
     (case f (world s) of (r, w') \<Rightarrow> (settle r, (emit ev s)\<lparr>world := w'\<rparr>))"

definition call_sync :: "event \<Rightarrow> ('w \<Rightarrow> 'w) \<Rightarrow> 'w state \<Rightarrow> 'w state" where
  "call_sync ev f s = (emit ev s)\<lparr>world := f (world s)\<rparr>"

section \<open>The auto-poll timer\<close>

text \<open>\<^verbatim>\<open>setInterval\<close> returns a handle greater than zero that it never returned before;
  \<^verbatim>\<open>clearInterval\<close> of a value that is no active handle does nothing.\<close>

definition setInterval :: "'w state \<Rightarrow> nat \<times> 'w state" where
  "setInterval s =
     (let h = Suc (lastTimer s) in (h, s\<lparr>timers := timers s @ [h], lastTimer := h\<rparr>))"

fun clearInterval :: "timer_field \<Rightarrow> 'w state \<Rightarrow> 'w state" where
  "clearInterval (TimerHandle h) s = s\<lparr>timers := removeAll h (timers s)\<rparr>"
| "clearInterval TimerUndefined s = s"
| "clearInterval TimerFalse s = s"

definition setupAutoUpdateCheck :: "'w state \<Rightarrow> 'w state" where
  "setupAutoUpdateCheck s =
     (if truthy (autocheckTimer s) then s
      else (case setInterval s of (h, s') \<Rightarrow> s'\<lparr>autocheckTimer := TimerHandle h\<rparr>))"

definition stopAutoUpdateCheck :: "'w state \<Rightarrow> 'w state" where
  "stopAutoUpdateCheck s = (clearInterval (autocheckTimer s) s)\<lparr>autocheckTimer := TimerFalse\<rparr>"

definition stop :: "'w state \<Rightarrow> 'w state" where
  "stop s = stopAutoUpdateCheck s"

section \<open>Action handlers\<close>

definition qlFetch :: "'w collaborators \<Rightarrow> (atomSettingsInfo, 'w state) async" where
  "qlFetch env = call_async Call_fetchAtomSettingsInfo (fetchAtomSettingsInfo env)"

definition storeLastUpdate :: "'w collaborators \<Rightarrow> timestamp \<Rightarrow> (unit, 'w state) async" where
  "storeLastUpdate env v s = (Fulfilled (), call_sync (Call_setLastUpdate v) (setLastUpdate env v) s)"

text \<open>\<^verbatim>\<open>applyPackageSettings(packageSettings)\<close> has one parameter.\<close>

definition applyPackageSettings :: "'w collaborators \<Rightarrow> settings \<Rightarrow> (unit, 'w state) async" where
  "applyPackageSettings env ps s =
     promise_then (qlFetch env) (\<lambda>info. storeLastUpdate env (info_lastUpdate info))
       (call_sync (Call_applyPackageSettings ps) (asm_applyPackageSettings env ps) s)"

definition handlePackageAdd :: "'w collaborators \<Rightarrow> package list \<Rightarrow> (unit, 'w state) async" where
  "handlePackageAdd env pkgs =
     promise_then
       (promise_then
          (call_async (Call_installMissingPackages pkgs) (installMissingPackages env pkgs))
          (\<lambda>_. qlFetch env))
       (\<lambda>info. storeLastUpdate env (info_lastUpdate info))"

definition handlePackageRemove :: "'w collaborators \<Rightarrow> package list \<Rightarrow> (unit, 'w state) async" where
  "handlePackageRemove env pkgs =
     promise_then
       (promise_then
          (call_async (Call_uninstallPackages pkgs) (uninstallPackages env pkgs))
          (\<lambda>_. qlFetch env))
       (\<lambda>info. storeLastUpdate env (info_lastUpdate info))"

text \<open>\<^verbatim>\<open>backup()\<close>: the promise it returns is resolved at the end of the \<^verbatim>\<open>then\<close>
  callback and rejected in the \<^verbatim>\<open>catch\<close> callback.\<close>

definition backup :: "'w collaborators \<Rightarrow> (unit, 'w state) async" where
  "backup env s =
     (let files = getFiles env (world s) in
      promise_catch
        (promise_then
           (call_async (Call_saveAtomSettings files) (saveAtomSettings env files))
           (\<lambda>result s'.
              (Fulfilled (),
               if success result
               then call_sync (Call_setLastUpdate (result_lastUpdate result))
                      (setLastUpdate env (result_lastUpdate result)) s'
               else s')))
        (\<lambda>e s'. (Rejected e, emit (ConsoleError ''atom-package-sync error backing up data: '' e) s'))
        (emit Call_getFiles s))"

section \<open>The sync pass\<close>

text \<open>A call with one argument more than the function has parameters: the extra
  argument is dropped.\<close>

definition call_with_extra :: "('a \<Rightarrow> 'r) \<Rightarrow> 'a \<Rightarrow> 'b \<Rightarrow> 'r" where
  "call_with_extra f a b = f a"

text \<open>The \<^verbatim>\<open>switch\<close> of \<^verbatim>\<open>sync()\<close>: \<^verbatim>\<open>func\<close> stays undefined when no case matches.\<close>

definition dispatch :: "'w collaborators \<Rightarrow> change \<Rightarrow> (unit, 'w state) async option" where
  "dispatch env change =
     (case status change of
        FirstTimeConnect \<Rightarrow> Some (backup env)
      | AddPackagesFromClient \<Rightarrow> Some (backup env)
      | RemovePackagesFromClient \<Rightarrow> Some (backup env)
      | SettingsChangedFromClient \<Rightarrow> Some (backup env)
      | AddPackagesFromServer \<Rightarrow> Some (handlePackageAdd env (packages change))
      | RemovePackagesFromServer \<Rightarrow> Some (handlePackageRemove env (packages change))
      | PackageSettingsChangedFromServer \<Rightarrow>
          Some (call_with_extra (applyPackageSettings env) (packageSettings change) (lastUpdate change))
      | NewAtomInstance \<Rightarrow>
          Some (promise_then
                  (promise_then (handlePackageAdd env (packages change))
                     (\<lambda>_. applyPackageSettings env (packageSettings change)))
                  (\<lambda>_. backup env))
      | OtherStatus _ \<Rightarrow> None)"

text \<open>What the iteratee handed to \<^verbatim>\<open>async.eachSeries\<close> does with its callback
  \<^verbatim>\<open>next\<close>: it calls it (with an error or without), or it never calls it.\<close>

datatype next_call = Next "err option" | NoNext

text \<open>
  The iteratee of \<^verbatim>\<open>sync()\<close>. With no \<^verbatim>\<open>func\<close> it returns without calling
  \<^verbatim>\<open>next\<close>. Otherwise \<^verbatim>\<open>func().then(() => next()).catch(err => { throw err })\<close>:
  \<^verbatim>\<open>next\<close> is called when the handler's promise is fulfilled; when it is rejected the
  \<^verbatim>\<open>catch\<close> callback throws the error again, into a promise that nobody reads, and
  \<^verbatim>\<open>next\<close> is not called.
\<close>

definition iteratee :: "'w collaborators \<Rightarrow> change \<Rightarrow> 'w state \<Rightarrow> next_call \<times> 'w state" where
  "iteratee env change s =
     (case dispatch env change of
        None \<Rightarrow> (NoNext, s)
      | Some func \<Rightarrow>
          (case promise_catch (promise_then func (\<lambda>_ s'. (Fulfilled (Next None), s')))
                  (\<lambda>e s'. (Rejected e, s')) s of
             (Fulfilled n, s') \<Rightarrow> (n, s')
           | (Rejected e, s') \<Rightarrow> (NoNext, s')
           | (Pending, s') \<Rightarrow> (NoNext, s')))"

text \<open>
  \<^verbatim>\<open>async.eachSeries(coll, iteratee, callback)\<close>: the iteratee runs on one item at a
  time; the next item starts when the iteratee calls \<^verbatim>\<open>next()\<close>; \<^verbatim>\<open>next(err)\<close> ends the
  loop and calls the final callback with the error; after the last item (or on an empty
  collection) the final callback is called without error. The result is the argument
  of the final callback, or \<open>None\<close> when it is never called.
\<close>

fun eachSeries :: "'a list \<Rightarrow> ('a \<Rightarrow> 's \<Rightarrow> next_call \<times> 's) \<Rightarrow> 's \<Rightarrow> err option option \<times> 's" where
  "eachSeries [] it s = (Some None, s)"
| "eachSeries (x # xs) it s =
     (case it x s of
        (Next None, s') \<Rightarrow> eachSeries xs it s'
      | (Next (Some e), s') \<Rightarrow> (Some (Some e), s')
      | (NoNext, s') \<Rightarrow> (None, s'))"

text \<open>The promise built in the first \<^verbatim>\<open>then\<close> of \<^verbatim>\<open>sync()\<close>: the final callback of
  \<^verbatim>\<open>eachSeries\<close> rejects it with the error or resolves it with \<^verbatim>\<open>changes.length\<close>.\<close>

definition applyChanges :: "'w collaborators \<Rightarrow> change list \<Rightarrow> (nat, 'w state) async" where
  "applyChanges env changes s =
     (case eachSeries changes (iteratee env)
             (if length changes \<noteq> 0 then emit (ConsoleLogChanges changes) s else s) of
        (Some (Some e), s') \<Rightarrow> (Rejected e, s')
      | (Some None, s') \<Rightarrow> (Fulfilled (length changes), s')
      | (None, s') \<Rightarrow> (Pending, s'))"

definition SYNC_SUCCESS_MESSAGE :: string where
  "SYNC_SUCCESS_MESSAGE = ''Packages synced successfully''"

text \<open>The second \<^verbatim>\<open>then\<close>: the notification is under the \<^verbatim>\<open>if\<close>, the call of
  \<^verbatim>\<open>setupAutoUpdateCheck\<close> is the statement after it.\<close>

definition notifyAndSchedule :: "nat \<Rightarrow> (unit, 'w state) async" where
  "notifyAndSchedule nbOfChanges s =
     (Fulfilled (),
      setupAutoUpdateCheck
        (if nbOfChanges > 0 then emit (NotifySuccess SYNC_SUCCESS_MESSAGE) s else s))"

text \<open>
  How a call of \<^verbatim>\<open>sync()\<close> ends: at the lock check (\<^verbatim>\<open>return resolve()\<close>), in the last
  \<^verbatim>\<open>then\<close> (which clears the lock and calls \<^verbatim>\<open>resolve()\<close>), in the \<^verbatim>\<open>catch\<close> (which
  clears the lock), or in neither, because the promise before them stays pending.
\<close>

datatype pass_end = Coalesced | Unlocked | ErrorUnlocked err | Stalled

text \<open>The pipeline of \<^verbatim>\<open>sync()\<close> from \<^verbatim>\<open>getSyncChanges()\<close> on, run with the lock taken.\<close>

definition sync_pipeline :: "'w collaborators \<Rightarrow> 'w state \<Rightarrow> pass_end \<times> 'w state" where
  "sync_pipeline env s =
     (case promise_then
             (promise_then (call_async Call_getSyncChanges (getSyncChanges env)) (applyChanges env))
             notifyAndSchedule s of
        (Fulfilled _, s') \<Rightarrow> (Unlocked, (emit (ConsoleLog ''Unlock sync'') s')\<lparr>syncLock := False\<rparr>)
      | (Rejected e, s') \<Rightarrow>
          (ErrorUnlocked e, (emit (ConsoleLog ''Error Unlock sync'') s')\<lparr>syncLock := False\<rparr>)
      | (Pending, s') \<Rightarrow> (Stalled, s'))"

definition take_lock :: "'w state \<Rightarrow> 'w state" where
  "take_lock s = (emit (ConsoleLog ''Sync lock'') s)\<lparr>syncLock := True\<rparr>"

definition sync :: "'w collaborators \<Rightarrow> 'w state \<Rightarrow> pass_end \<times> 'w state" where
  "sync env s = (if syncLock s then (Coalesced, s) else sync_pipeline env (take_lock s))"

section \<open>Triggers that overlap\<close>

text \<open>
  \<^verbatim>\<open>sync()\<close> is called by the command, by \<^verbatim>\<open>start\<close> and by every tick of the
  interval timer, and the runtime runs one callback at a time. A call checks and takes
  the lock before it returns; the pipeline of a pass that has taken the lock runs in
  later turns, so further calls of \<^verbatim>\<open>sync()\<close> and of \<^verbatim>\<open>stop()\<close> can come before it.
  The runtime counts the passes that have taken the lock and whose pipeline has not run
  yet, and the passes whose pipeline has stalled.
\<close>

datatype stimulus = SyncCalled | PipelineRuns | StopCalled

record 'w runtime =
  engine :: "'w state"
  awaiting :: nat
  stalled :: nat

fun react :: "'w collaborators \<Rightarrow> stimulus \<Rightarrow> 'w runtime \<Rightarrow> 'w runtime" where
  "react env SyncCalled r =
     (if syncLock (engine r) then r
      else r\<lparr>engine := take_lock (engine r), awaiting := Suc (awaiting r)\<rparr>)"
| "react env PipelineRuns r =
     (if awaiting r = 0 then r
      else (case sync_pipeline env (engine r) of
              (Stalled, s') \<Rightarrow> r\<lparr>engine := s', awaiting := awaiting r - 1, stalled := Suc (stalled r)\<rparr>
            | (_, s') \<Rightarrow> r\<lparr>engine := s', awaiting := awaiting r - 1\<rparr>))"
| "react env StopCalled r = r\<lparr>engine := stop (engine r)\<rparr>"

fun run :: "'w collaborators \<Rightarrow> stimulus list \<Rightarrow> 'w runtime \<Rightarrow> 'w runtime" where
  "run env [] r = r"
| "run env (x # xs) r = run env xs (react env x r)"

definition active :: "'w runtime \<Rightarrow> nat" where
  "active r = awaiting r + stalled r"

text \<open>The state of the engine when the package is activated, and the runtime around it.\<close>

definition activated :: "'w \<Rightarrow> 'w state" where
  "activated w =
     \<lparr>syncLock = False, autocheckTimer = TimerUndefined, timers = [], lastTimer = 0,
      world = w, trace = []\<rparr>"

definition idle :: "'w state \<Rightarrow> 'w runtime" where
  "idle s = \<lparr>engine = s, awaiting = 0, stalled = 0\<rparr>"

section \<open>A concrete set of collaborators\<close>

text \<open>
  A small local store, remote store and change detector, to run the engine on. The
  detector reports the records in \<open>detected\<close>; the remote store counts its saves in
  \<open>remoteLastUpdate\<close> and answers \<open>remoteAnswers\<close> more requests before it goes
  down; the flags make the detector fail and the remote store answer a save with
  \<^verbatim>\<open>success: false\<close>; the package
  \<^verbatim>\<open>broken\<close> cannot be installed.
\<close>

record store =
  installed :: "package list"
  localSettings :: settings
  localLastUpdate :: timestamp
  remoteLastUpdate :: timestamp
  detected :: "change list"
  detectorDown :: bool
  remoteAnswers :: nat
  saveRefused :: bool

definition store_env :: "store collaborators" where
  "store_env =
     \<lparr>getSyncChanges =
        (\<lambda>w. (if detectorDown w then Inl ''detector down'' else Inr (detected w), w)),
      installMissingPackages =
        (\<lambda>pkgs w. if ''broken'' \<in> set pkgs then (Inl ''install failed'', w)
                  else (Inr (), w\<lparr>installed := installed w @ filter (\<lambda>p. p \<notin> set (installed w)) pkgs\<rparr>)),
      uninstallPackages =
        (\<lambda>pkgs w. (Inr (), w\<lparr>installed := filter (\<lambda>p. p \<notin> set pkgs) (installed w)\<rparr>)),
      asm_applyPackageSettings = (\<lambda>ps w. w\<lparr>localSettings := ps\<rparr>),
      setLastUpdate = (\<lambda>v w. w\<lparr>localLastUpdate := v\<rparr>),
      getFiles = localSettings,
      fetchAtomSettingsInfo =
        (\<lambda>w. if remoteAnswers w = 0 then (Inl ''remote down'', w)
             else (Inr \<lparr>info_lastUpdate = remoteLastUpdate w\<rparr>,
                   w\<lparr>remoteAnswers := remoteAnswers w - 1\<rparr>)),
      saveAtomSettings =
        (\<lambda>fs w. if remoteAnswers w = 0 then (Inl ''remote down'', w)
                else if saveRefused w
                then (Inr \<lparr>success = False, result_lastUpdate = remoteLastUpdate w\<rparr>,
                      w\<lparr>remoteAnswers := remoteAnswers w - 1\<rparr>)
                else (Inr \<lparr>success = True, result_lastUpdate = Suc (remoteLastUpdate w)\<rparr>,
                      w\<lparr>remoteLastUpdate := Suc (remoteLastUpdate w),
                        remoteAnswers := remoteAnswers w - 1\<rparr>))\<rparr>"

definition store0 :: store where
  "store0 =
     \<lparr>installed = [''linter''], localSettings = ''tabs'', localLastUpdate = 3,
      remoteLastUpdate = 5, detected = [], detectorDown = False, remoteAnswers = 9,
      saveRefused = False\<rparr>"

definition mk_change :: "SyncStatus \<Rightarrow> package list \<Rightarrow> change" where
  "mk_change st pkgs = \<lparr>status = st, packages = pkgs, packageSettings = ''spaces'', lastUpdate = 4\<rparr>"

section \<open>Basic facts\<close>

lemma promise_then_Fulfilled: "p s = (Fulfilled a, s') \<Longrightarrow> promise_then p f s = f a s'"
  by (simp add: promise_then_def)

lemma promise_then_Rejected: "p s = (Rejected e, s') \<Longrightarrow> promise_then p f s = (Rejected e, s')"
  by (simp add: promise_then_def)

lemma promise_then_Pending: "p s = (Pending, s') \<Longrightarrow> promise_then p f s = (Pending, s')"
  by (simp add: promise_then_def)

lemmas engine_defs =
  promise_then_def promise_catch_def emit_def call_async_def call_sync_def qlFetch_def
  storeLastUpdate_def applyPackageSettings_def handlePackageAdd_def handlePackageRemove_def
  backup_def call_with_extra_def dispatch_def iteratee_def applyChanges_def
  notifyAndSchedule_def setupAutoUpdateCheck_def setInterval_def sync_pipeline_def
  take_lock_def sync_def stopAutoUpdateCheck_def stop_def

lemmas store_defs = store_env_def store0_def mk_change_def activated_def idle_def

text \<open>No handler touches the lock.\<close>

lemma call_async_syncLock: "syncLock (snd (call_async ev f s)) = syncLock s"
  by (simp add: call_async_def emit_def split: prod.splits)

lemma promise_then_syncLock:
  assumes "\<And>s. syncLock (snd (p s)) = syncLock s"
    and "\<And>a s. syncLock (snd (f a s)) = syncLock s"
  shows "syncLock (snd (promise_then p f s)) = syncLock s"
proof (cases "p s")
  case (Pair r s')
  from assms(1) [of s] Pair have "syncLock s' = syncLock s" by simp
  with Pair assms(2) show ?thesis
    by (cases r) (simp_all add: promise_then_def)
qed

lemma qlFetch_syncLock: "syncLock (snd (qlFetch env s)) = syncLock s"
  by (simp add: qlFetch_def call_async_syncLock)

lemma storeLastUpdate_syncLock: "syncLock (snd (storeLastUpdate env v s)) = syncLock s"
  by (simp add: storeLastUpdate_def call_sync_def emit_def)

lemma applyPackageSettings_syncLock: "syncLock (snd (applyPackageSettings env ps s)) = syncLock s"
  unfolding applyPackageSettings_def
  by (subst promise_then_syncLock)
     (simp_all add: qlFetch_syncLock storeLastUpdate_syncLock call_sync_def emit_def)

lemma handlePackageAdd_syncLock: "syncLock (snd (handlePackageAdd env pkgs s)) = syncLock s"
  unfolding handlePackageAdd_def
  by (intro promise_then_syncLock call_async_syncLock qlFetch_syncLock storeLastUpdate_syncLock)

lemma handlePackageRemove_syncLock: "syncLock (snd (handlePackageRemove env pkgs s)) = syncLock s"
  unfolding handlePackageRemove_def
  by (intro promise_then_syncLock call_async_syncLock qlFetch_syncLock storeLastUpdate_syncLock)

lemma backup_syncLock: "syncLock (snd (backup env s)) = syncLock s"
  by (simp add: backup_def Let_def promise_catch_def promise_then_def call_async_def
      call_sync_def emit_def split: prod.splits sum.splits promise.splits)

lemma dispatch_syncLock:
  assumes "dispatch env c = Some func"
  shows "syncLock (snd (func s)) = syncLock s"
proof (cases "status c")
  case NewAtomInstance
  with assms have "func = promise_then
                  (promise_then (handlePackageAdd env (packages c))
                     (\<lambda>_. applyPackageSettings env (packageSettings c)))
                  (\<lambda>_. backup env)"
    by (simp add: dispatch_def)
  then show ?thesis
    by (simp add: promise_then_syncLock handlePackageAdd_syncLock
        applyPackageSettings_syncLock backup_syncLock)
qed (use assms in \<open>auto simp: dispatch_def call_with_extra_def backup_syncLock
      handlePackageAdd_syncLock handlePackageRemove_syncLock applyPackageSettings_syncLock\<close>)

lemma iteratee_syncLock: "syncLock (snd (iteratee env c s)) = syncLock s"
proof (cases "dispatch env c")
  case None
  then show ?thesis by (simp add: iteratee_def)
next
  case (Some func)
  obtain r s' where f: "func s = (r, s')" by (cases "func s")
  with dispatch_syncLock [OF Some, of s] have "syncLock s' = syncLock s" by simp
  with Some f show ?thesis
    by (cases r) (simp_all add: iteratee_def promise_catch_def promise_then_def)
qed

lemma eachSeries_syncLock:
  assumes "\<And>x s. syncLock (snd (it x s)) = syncLock s"
  shows "syncLock (snd (eachSeries xs it s)) = syncLock s"
proof (induction xs arbitrary: s)
  case Nil
  show ?case by simp
next
  case (Cons x xs)
  obtain n s' where it: "it x s = (n, s')" by (cases "it x s")
  with assms [of x s] have l: "syncLock s' = syncLock s" by simp
  show ?case
  proof (cases n)
    case (Next eo)
    with it l Cons.IH [of s'] show ?thesis by (cases eo) simp_all
  next
    case NoNext
    with it l show ?thesis by simp
  qed
qed

lemma applyChanges_syncLock: "syncLock (snd (applyChanges env changes s)) = syncLock s"
proof -
  let ?s0 = "if length changes \<noteq> 0 then emit (ConsoleLogChanges changes) s else s"
  have l0: "syncLock ?s0 = syncLock s" by (simp add: emit_def)
  obtain r s' where e: "eachSeries changes (iteratee env) ?s0 = (r, s')"
    by (cases "eachSeries changes (iteratee env) ?s0")
  from eachSeries_syncLock [of "iteratee env" changes ?s0] e l0
  have "syncLock s' = syncLock s" by (simp add: iteratee_syncLock)
  with e show ?thesis
    by (simp add: applyChanges_def split: option.splits)
qed

lemma sync_pipeline_lock:
  "syncLock (snd (sync_pipeline env s)) = (fst (sync_pipeline env s) = Stalled \<and> syncLock s)"
proof -
  let ?p = "promise_then
             (promise_then (call_async Call_getSyncChanges (getSyncChanges env)) (applyChanges env))
             notifyAndSchedule"
  have l: "syncLock (snd (?p s)) = syncLock s"
    by (intro promise_then_syncLock call_async_syncLock applyChanges_syncLock)
       (simp add: notifyAndSchedule_def setupAutoUpdateCheck_def setInterval_def emit_def)
  obtain r s' where p: "?p s = (r, s')" by (cases "?p s")
  with l have "syncLock s' = syncLock s" by simp
  with p show ?thesis
    by (cases r) (simp_all add: sync_pipeline_def emit_def)
qed

section \<open>The lock\<close>

text \<open>A pass that reaches the last \<^verbatim>\<open>then\<close> or the \<^verbatim>\<open>catch\<close> has cleared the lock; a
  pass that stalls leaves it set.\<close>

lemma sync_pipeline_ended_unlocked:
  "fst (sync_pipeline env s) \<noteq> Stalled \<Longrightarrow> \<not> syncLock (snd (sync_pipeline env s))"
  by (simp add: sync_pipeline_lock)

lemma sync_pipeline_stalled_locked:
  "sync_pipeline env s = (Stalled, s') \<Longrightarrow> syncLock s' = syncLock s"
  using sync_pipeline_lock [of env s] by simp

lemma sync_pipeline_not_Coalesced: "fst (sync_pipeline env s) \<noteq> Coalesced"
  by (simp add: sync_pipeline_def split: prod.splits promise.splits)

lemma sync_detection_failure_unlocks:
  assumes "\<not> syncLock s" and "getSyncChanges env (world s) = (Inl e, w')"
  shows "sync env s =
    (ErrorUnlocked e,
     s\<lparr>syncLock := False, world := w',
       trace := trace s @ [ConsoleLog ''Sync lock'', Call_getSyncChanges,
                           ConsoleLog ''Error Unlock sync'']\<rparr>)"
  using assms by (simp add: engine_defs)

lemma sync_lock_after_pass:
  "\<not> syncLock s \<Longrightarrow> syncLock (snd (sync env s)) = (fst (sync env s) = Stalled)"
  by (simp add: sync_def sync_pipeline_lock take_lock_def)

text \<open>An item whose status matches no case, and an item whose handler is rejected, both
  end the loop without the final callback.\<close>

lemma iteratee_unmatched:
  "dispatch env c = None \<Longrightarrow> eachSeries (c # rest) (iteratee env) s = (None, s)"
  by (simp add: iteratee_def)

lemma iteratee_Fulfilled:
  "dispatch env c = Some func \<Longrightarrow> func s = (Fulfilled u, s') \<Longrightarrow> iteratee env c s = (Next None, s')"
  by (simp add: iteratee_def promise_catch_def promise_then_def)

lemma iteratee_Rejected:
  "dispatch env c = Some func \<Longrightarrow> func s = (Rejected e, s') \<Longrightarrow> iteratee env c s = (NoNext, s')"
  by (simp add: iteratee_def promise_catch_def promise_then_def)

lemma iteratee_Pending:
  "dispatch env c = Some func \<Longrightarrow> func s = (Pending, s') \<Longrightarrow> iteratee env c s = (NoNext, s')"
  by (simp add: iteratee_def promise_catch_def promise_then_def)

text \<open>So a pass stalls, with the lock set, at the first record whose handler is rejected
  and at the first record that has no handler.\<close>

lemma applyChanges_first_rejected:
  assumes "dispatch env c = Some func"
    and "func (emit (ConsoleLogChanges (c # rest)) s) = (Rejected e, s')"
  shows "applyChanges env (c # rest) s = (Pending, s')"
  using assms by (simp add: applyChanges_def iteratee_Rejected)

lemma applyChanges_first_unmatched:
  assumes "dispatch env c = None"
  shows "applyChanges env (c # rest) s = (Pending, emit (ConsoleLogChanges (c # rest)) s)"
  using assms by (simp add: applyChanges_def iteratee_def)

lemma sync_pipeline_changes:
  assumes "getSyncChanges env (world s) = (Inr changes, w1)"
    and "applyChanges env changes ((emit Call_getSyncChanges s)\<lparr>world := w1\<rparr>) = (Pending, s')"
  shows "sync_pipeline env s = (Stalled, s')"
proof -
  have "call_async Call_getSyncChanges (getSyncChanges env) s =
      (Fulfilled changes, (emit Call_getSyncChanges s)\<lparr>world := w1\<rparr>)"
    using assms(1) by (simp add: call_async_def)
  then have "promise_then (call_async Call_getSyncChanges (getSyncChanges env)) (applyChanges env) s =
      (Pending, s')"
    using assms(2) by (simp add: promise_then_Fulfilled)
  then show ?thesis
    by (simp add: sync_pipeline_def promise_then_Pending)
qed

lemma sync_handler_rejected_stalls:
  assumes "\<not> syncLock s"
    and "getSyncChanges env (world s) = (Inr (c # rest), w1)"
    and "dispatch env c = Some func"
    and "func (emit (ConsoleLogChanges (c # rest))
            ((emit Call_getSyncChanges (take_lock s))\<lparr>world := w1\<rparr>)) = (Rejected e, s')"
  shows "sync env s = (Stalled, s')" and "syncLock s'"
proof -
  have w: "world (take_lock s) = world s"
    by (simp add: take_lock_def emit_def)
  from applyChanges_first_rejected [OF assms(3,4)] assms(1,2)
  show st: "sync env s = (Stalled, s')"
    by (simp add: sync_def sync_pipeline_changes w)
  from sync_lock_after_pass [OF assms(1), of env] st show "syncLock s'"
    by simp
qed

lemma sync_unmatched_stalls:
  assumes "\<not> syncLock s"
    and "getSyncChanges env (world s) = (Inr (c # rest), w1)"
    and "dispatch env c = None"
  shows "sync env s =
    (Stalled,
     s\<lparr>syncLock := True, world := w1,
       trace := trace s @ [ConsoleLog ''Sync lock'', Call_getSyncChanges,
                           ConsoleLogChanges (c # rest)]\<rparr>)"
proof -
  have w: "world (take_lock s) = world s"
    by (simp add: take_lock_def emit_def)
  from applyChanges_first_unmatched [OF assms(3)] assms(1,2)
  have "sync env s = (Stalled, emit (ConsoleLogChanges (c # rest))
            ((emit Call_getSyncChanges (take_lock s))\<lparr>world := w1\<rparr>))"
    by (simp add: sync_def sync_pipeline_changes w)
  then show ?thesis
    by (simp add: emit_def take_lock_def)
qed

lemma iteratee_never_fails: "fst (iteratee env c s) \<noteq> Next (Some e)"
  by (simp add: iteratee_def promise_catch_def promise_then_def
      split: option.splits prod.splits promise.splits)

text \<open>
  C1. Claim: the lock is cleared by the end of every pass, also when a handler fails in
  the middle of the sequence. On the code a failing handler leaves the lock set: with
  one \<open>FirstTimeConnect\<close> record and a remote store that rejects the save, the
  pipeline stalls after the handler and \<open>syncLock\<close> stays \<open>True\<close>.
\<close>

theorem sync_handler_failure_keeps_lock:
  "sync store_env (activated (store0\<lparr>detected := [mk_change FirstTimeConnect []], remoteAnswers := 0\<rparr>)) =
     (Stalled,
      \<lparr>syncLock = True, autocheckTimer = TimerUndefined, timers = [], lastTimer = 0,
       world = store0\<lparr>detected := [mk_change FirstTimeConnect []], remoteAnswers := 0\<rparr>,
       trace = [ConsoleLog ''Sync lock'', Call_getSyncChanges,
                ConsoleLogChanges [mk_change FirstTimeConnect []],
                Call_getFiles, Call_saveAtomSettings ''tabs'',
                ConsoleError ''atom-package-sync error backing up data: '' ''remote down'']\<rparr>)"
  by (simp add: engine_defs store_defs)

text \<open>
  C2. Claim: a record whose status matches no case is skipped and the pass goes on to
  its end. On the code the loop stops at such a record: with an unknown status followed
  by a \<open>FirstTimeConnect\<close> record, the backup of the second record is never called,
  the pipeline stalls and \<open>syncLock\<close> stays \<open>True\<close>.
\<close>

theorem sync_unmatched_status_stalls:
  "sync store_env
     (activated (store0\<lparr>detected := [mk_change (OtherStatus 0) [], mk_change FirstTimeConnect []]\<rparr>)) =
     (Stalled,
      \<lparr>syncLock = True, autocheckTimer = TimerUndefined, timers = [], lastTimer = 0,
       world = store0\<lparr>detected := [mk_change (OtherStatus 0) [], mk_change FirstTimeConnect []]\<rparr>,
       trace = [ConsoleLog ''Sync lock'', Call_getSyncChanges,
                ConsoleLogChanges [mk_change (OtherStatus 0) [], mk_change FirstTimeConnect []]]\<rparr>)"
  by (simp add: engine_defs store_defs)

section \<open>Coalescing\<close>

lemma stop_syncLock: "syncLock (stop s) = syncLock s"
  by (cases "autocheckTimer s") (simp_all add: stop_def stopAutoUpdateCheck_def)

lemma react_keeps_one_pass:
  assumes "active r \<le> 1" and "active r = 1 \<longrightarrow> syncLock (engine r)"
  shows "active (react env x r) \<le> 1 \<and> (active (react env x r) = 1 \<longrightarrow> syncLock (engine (react env x r)))"
proof (cases x)
  case SyncCalled
  with assms show ?thesis
    by (auto simp: active_def take_lock_def emit_def)
next
  case StopCalled
  with assms show ?thesis
    by (simp add: active_def stop_syncLock)
next
  case PipelineRuns
  show ?thesis
  proof (cases "awaiting r = 0")
    case True
    with PipelineRuns assms show ?thesis by simp
  next
    case False
    with assms have a: "awaiting r = 1" "stalled r = 0" "syncLock (engine r)"
      by (auto simp: active_def)
    obtain p s' where sp: "sync_pipeline env (engine r) = (p, s')"
      by (cases "sync_pipeline env (engine r)")
    show ?thesis
    proof (cases "p = Stalled")
      case True
      with sp a sync_pipeline_stalled_locked [of env "engine r" s']
      show ?thesis using PipelineRuns by (simp add: active_def)
    next
      case False
      with sp a PipelineRuns show ?thesis
        by (cases p) (simp_all add: active_def)
    qed
  qed
qed

lemma run_keeps_one_pass:
  assumes "active r \<le> 1" and "active r = 1 \<longrightarrow> syncLock (engine r)"
  shows "active (run env xs r) \<le> 1"
  using assms
proof (induction xs arbitrary: r)
  case Nil
  then show ?case by simp
next
  case (Cons x xs)
  from react_keeps_one_pass [OF Cons.prems, of env x] Cons.IH [of "react env x r"]
  show ?case by simp
qed

text \<open>A call of \<^verbatim>\<open>sync()\<close> and the run of its pipeline, with nothing in between, is
  the pass of \<open>sync\<close>.\<close>

lemma run_single_pass:
  "\<not> syncLock s \<Longrightarrow> engine (run env [SyncCalled, PipelineRuns] (idle s)) = snd (sync env s)"
  by (simp add: idle_def sync_def split: prod.splits pass_end.splits)

text \<open>
  C3. A call of \<^verbatim>\<open>sync()\<close> while the lock is set ends at the lock check: the state,
  with its trace of collaborator calls, console lines and notifications, is unchanged,
  so neither the change detector nor a handler was called. Hence, from a state with the
  lock clear and no pass in flight, whatever calls of \<^verbatim>\<open>sync()\<close> and \<^verbatim>\<open>stop()\<close> come
  between the turns of the passes, at most one pass has taken the lock and not ended.
\<close>

theorem sync_coalesces_while_locked:
  "(syncLock s \<longrightarrow> sync env s = (Coalesced, s)) \<and>
   (syncLock (engine r) \<longrightarrow> react env SyncCalled r = r) \<and>
   (\<not> syncLock s0 \<longrightarrow> active (run env xs (idle s0)) \<le> 1)"
proof (intro conjI impI)
  assume "\<not> syncLock s0"
  have "active (idle s0) \<le> 1" "active (idle s0) = 1 \<longrightarrow> syncLock (engine (idle s0))"
    by (simp_all add: active_def idle_def)
  then show "active (run env xs (idle s0)) \<le> 1"
    by (rule run_keeps_one_pass)
qed (simp_all add: sync_def)

theorem sync_coalesces_while_locked_witness:
  "syncLock ((activated store0)\<lparr>syncLock := True\<rparr>) \<and>
   sync store_env ((activated store0)\<lparr>syncLock := True\<rparr>) =
     (Coalesced, (activated store0)\<lparr>syncLock := True\<rparr>) \<and>
   syncLock (engine (idle ((activated store0)\<lparr>syncLock := True\<rparr>))) \<and>
   react store_env SyncCalled (idle ((activated store0)\<lparr>syncLock := True\<rparr>)) =
     idle ((activated store0)\<lparr>syncLock := True\<rparr>) \<and>
   \<not> syncLock (activated store0) \<and>
   active (run store_env [SyncCalled, SyncCalled, PipelineRuns, SyncCalled] (idle (activated store0))) \<le> 1"
  using sync_coalesces_while_locked
    [of "(activated store0)\<lparr>syncLock := True\<rparr>" store_env
        "idle ((activated store0)\<lparr>syncLock := True\<rparr>)" "activated store0"
        "[SyncCalled, SyncCalled, PipelineRuns, SyncCalled]"]
  by (simp add: activated_def idle_def)

section \<open>Order of the handlers\<close>

text \<open>A pass that has taken the lock and got the change records from the detector ends
  as the loop over the records ends.\<close>

lemma sync_pass_eq:
  assumes "\<not> syncLock s" and "getSyncChanges env (world s) = (Inr changes, w1)"
  shows "sync env s =
    (case applyChanges env changes ((emit Call_getSyncChanges (take_lock s))\<lparr>world := w1\<rparr>) of
       (Fulfilled n, s') \<Rightarrow>
         (Unlocked,
          (emit (ConsoleLog ''Unlock sync'')
             (setupAutoUpdateCheck
                (if 0 < n then emit (NotifySuccess SYNC_SUCCESS_MESSAGE) s' else s')))
          \<lparr>syncLock := False\<rparr>)
     | (Rejected e, s') \<Rightarrow>
         (ErrorUnlocked e, (emit (ConsoleLog ''Error Unlock sync'') s')\<lparr>syncLock := False\<rparr>)
     | (Pending, s') \<Rightarrow> (Stalled, s'))"
proof -
  have w: "world (take_lock s) = world s"
    by (simp add: take_lock_def emit_def)
  show ?thesis
    using assms
    by (simp add: sync_def sync_pipeline_def promise_then_def call_async_def
        notifyAndSchedule_def w split: prod.splits promise.splits)
qed

text \<open>
  C4. A pass of \<open>sync\<close> on which the detector reports the records \<open>c1\<close>, \<open>c2\<close>,
  \<open>c3\<close>, each with a handler: the handler of \<open>c1\<close> starts in the state of the pass
  after the detector's answer; the handler of \<open>c2\<close> starts in the state that the
  handler of \<open>c1\<close> left when its promise was fulfilled, and the handler of \<open>c3\<close> in
  the state left by the handler of \<open>c2\<close>; the pass ends in the state left by the
  handler of \<open>c3\<close>. When the handler of \<open>c2\<close> is rejected, the pass stops in the
  state that handler left: the handler of \<open>c3\<close> never runs.
\<close>

theorem handlers_run_in_order:
  assumes "\<not> syncLock s"
    and "getSyncChanges env (world s) = (Inr [c1, c2, c3], w1)"
    and "dispatch env c1 = Some f1" and "dispatch env c2 = Some f2"
    and "dispatch env c3 = Some f3"
    and "f1 (emit (ConsoleLogChanges [c1, c2, c3])
              ((emit Call_getSyncChanges (take_lock s))\<lparr>world := w1\<rparr>)) = (Fulfilled (), s1)"
  shows "(f2 s1 = (Fulfilled (), s2) \<and> f3 s2 = (Fulfilled (), s3) \<longrightarrow>
            sync env s =
              (Unlocked,
               (emit (ConsoleLog ''Unlock sync'')
                  (setupAutoUpdateCheck (emit (NotifySuccess SYNC_SUCCESS_MESSAGE) s3)))
               \<lparr>syncLock := False\<rparr>)) \<and>
         (f2 s1 = (Fulfilled (), s2) \<and> f3 s2 = (Rejected e, s3') \<longrightarrow>
            sync env s = (Stalled, s3')) \<and>
         (f2 s1 = (Rejected e, s2') \<longrightarrow> sync env s = (Stalled, s2')) \<and>
         (f2 s1 = (Rejected e, s2') \<longrightarrow>
            applyChanges env [c1, c2, c3] ((emit Call_getSyncChanges (take_lock s))\<lparr>world := w1\<rparr>) =
              (Pending, s2'))"
proof -
  let ?t = "(emit Call_getSyncChanges (take_lock s))\<lparr>world := w1\<rparr>"
  note pass = sync_pass_eq [OF assms(1,2)]
  have i1: "iteratee env c1 (emit (ConsoleLogChanges [c1, c2, c3]) ?t) = (Next None, s1)"
    using assms(3,6) by (rule iteratee_Fulfilled)
  have ok: "applyChanges env [c1, c2, c3] ?t = (Fulfilled 3, s3)"
    if "f2 s1 = (Fulfilled (), s2)" and "f3 s2 = (Fulfilled (), s3)"
  proof -
    from that assms(4,5) have "iteratee env c2 s1 = (Next None, s2)"
      and "iteratee env c3 s2 = (Next None, s3)"
      by (simp_all add: iteratee_Fulfilled)
    with i1 show ?thesis by (simp add: applyChanges_def)
  qed
  have ko3: "applyChanges env [c1, c2, c3] ?t = (Pending, s3')"
    if "f2 s1 = (Fulfilled (), s2)" and "f3 s2 = (Rejected e, s3')"
  proof -
    from that assms(4,5) have "iteratee env c2 s1 = (Next None, s2)"
      and "iteratee env c3 s2 = (NoNext, s3')"
      by (simp_all add: iteratee_Fulfilled iteratee_Rejected)
    with i1 show ?thesis by (simp add: applyChanges_def)
  qed
  have ko2: "applyChanges env [c1, c2, c3] ?t = (Pending, s2')"
    if "f2 s1 = (Rejected e, s2')"
  proof -
    from that assms(4) have "iteratee env c2 s1 = (NoNext, s2')"
      by (simp add: iteratee_Rejected)
    with i1 show ?thesis by (simp add: applyChanges_def)
  qed
  show ?thesis
  proof (intro conjI impI)
    assume "f2 s1 = (Fulfilled (), s2) \<and> f3 s2 = (Fulfilled (), s3)"
    with ok pass show "sync env s =
              (Unlocked,
               (emit (ConsoleLog ''Unlock sync'')
                  (setupAutoUpdateCheck (emit (NotifySuccess SYNC_SUCCESS_MESSAGE) s3)))
               \<lparr>syncLock := False\<rparr>)"
      by simp
  next
    assume "f2 s1 = (Fulfilled (), s2) \<and> f3 s2 = (Rejected e, s3')"
    with ko3 pass show "sync env s = (Stalled, s3')" by simp
  next
    assume "f2 s1 = (Rejected e, s2')"
    with ko2 pass show "sync env s = (Stalled, s2')" by simp
  next
    assume "f2 s1 = (Rejected e, s2')"
    with ko2 show "applyChanges env [c1, c2, c3] ?t = (Pending, s2')" by simp
  qed
qed

theorem handlers_run_in_order_witness:
  "sync store_env
     (activated (store0\<lparr>detected :=
        [mk_change FirstTimeConnect [], mk_change AddPackagesFromServer [''minimap''],
         mk_change RemovePackagesFromServer [''linter'']]\<rparr>)) =
     (Unlocked,
      \<lparr>syncLock = False, autocheckTimer = TimerHandle 1, timers = [1], lastTimer = 1,
       world = store0\<lparr>installed := [''minimap''], localLastUpdate := 6, remoteLastUpdate := 6,
                 detected :=
                   [mk_change FirstTimeConnect [], mk_change AddPackagesFromServer [''minimap''],
                    mk_change RemovePackagesFromServer [''linter'']],
                 remoteAnswers := 6\<rparr>,
       trace = [ConsoleLog ''Sync lock'', Call_getSyncChanges,
                ConsoleLogChanges
                  [mk_change FirstTimeConnect [], mk_change AddPackagesFromServer [''minimap''],
                   mk_change RemovePackagesFromServer [''linter'']],
                Call_getFiles, Call_saveAtomSettings ''tabs'', Call_setLastUpdate 6,
                Call_installMissingPackages [''minimap''], Call_fetchAtomSettingsInfo,
                Call_setLastUpdate 6,
                Call_uninstallPackages [''linter''], Call_fetchAtomSettingsInfo,
                Call_setLastUpdate 6,
                NotifySuccess ''Packages synced successfully'', ConsoleLog ''Unlock sync'']\<rparr>) \<and>
   sync store_env
     (activated (store0\<lparr>detected :=
        [mk_change FirstTimeConnect [], mk_change AddPackagesFromServer [''broken''],
         mk_change RemovePackagesFromServer [''linter'']]\<rparr>)) =
     (Stalled,
      \<lparr>syncLock = True, autocheckTimer = TimerUndefined, timers = [], lastTimer = 0,
       world = store0\<lparr>localLastUpdate := 6, remoteLastUpdate := 6,
                 detected :=
                   [mk_change FirstTimeConnect [], mk_change AddPackagesFromServer [''broken''],
                    mk_change RemovePackagesFromServer [''linter'']],
                 remoteAnswers := 8\<rparr>,
       trace = [ConsoleLog ''Sync lock'', Call_getSyncChanges,
                ConsoleLogChanges
                  [mk_change FirstTimeConnect [], mk_change AddPackagesFromServer [''broken''],
                   mk_change RemovePackagesFromServer [''linter'']],
                Call_getFiles, Call_saveAtomSettings ''tabs'', Call_setLastUpdate 6,
                Call_installMissingPackages [''broken'']]\<rparr>)"
proof -
  let ?c1 = "mk_change FirstTimeConnect []"
  let ?c2 = "mk_change AddPackagesFromServer [''minimap'']"
  let ?c2' = "mk_change AddPackagesFromServer [''broken'']"
  let ?c3 = "mk_change RemovePackagesFromServer [''linter'']"
  let ?w = "store0\<lparr>detected := [?c1, ?c2, ?c3]\<rparr>"
  let ?w' = "store0\<lparr>detected := [?c1, ?c2', ?c3]\<rparr>"
  let ?s0 = "emit (ConsoleLogChanges [?c1, ?c2, ?c3])
               ((emit Call_getSyncChanges (take_lock (activated ?w)))\<lparr>world := ?w\<rparr>)"
  let ?s0' = "emit (ConsoleLogChanges [?c1, ?c2', ?c3])
               ((emit Call_getSyncChanges (take_lock (activated ?w')))\<lparr>world := ?w'\<rparr>)"
  let ?s1 = "snd (backup store_env ?s0)"
  let ?s2 = "snd (handlePackageAdd store_env [''minimap''] ?s1)"
  let ?s3 = "snd (handlePackageRemove store_env [''linter''] ?s2)"
  let ?s1' = "snd (backup store_env ?s0')"
  let ?s2' = "snd (handlePackageAdd store_env [''broken''] ?s1')"
  have l: "\<not> syncLock (activated ?w)" and l': "\<not> syncLock (activated ?w')"
    by (simp_all add: activated_def)
  have g: "getSyncChanges store_env (world (activated ?w)) = (Inr [?c1, ?c2, ?c3], ?w)"
    and g': "getSyncChanges store_env (world (activated ?w')) = (Inr [?c1, ?c2', ?c3], ?w')"
    by (simp_all add: store_defs)
  have d1: "dispatch store_env ?c1 = Some (backup store_env)"
    and d2: "dispatch store_env ?c2 = Some (handlePackageAdd store_env [''minimap''])"
    and d2': "dispatch store_env ?c2' = Some (handlePackageAdd store_env [''broken''])"
    and d3: "dispatch store_env ?c3 = Some (handlePackageRemove store_env [''linter''])"
    by (simp_all add: dispatch_def mk_change_def)
  have f1: "backup store_env ?s0 = (Fulfilled (), ?s1)"
    by (simp add: engine_defs store_defs)
  have f2: "handlePackageAdd store_env [''minimap''] ?s1 = (Fulfilled (), ?s2)"
    by (simp add: engine_defs store_defs)
  have f3: "handlePackageRemove store_env [''linter''] ?s2 = (Fulfilled (), ?s3)"
    by (simp add: engine_defs store_defs)
  have f1': "backup store_env ?s0' = (Fulfilled (), ?s1')"
    by (simp add: engine_defs store_defs)
  have f2': "handlePackageAdd store_env [''broken''] ?s1' = (Rejected ''install failed'', ?s2')"
    by (simp add: engine_defs store_defs)
  from handlers_run_in_order [OF l g d1 d2 d3 f1, of ?s2 ?s3 "''install failed''" ?s3 ?s2] f2 f3
  have 1: "sync store_env (activated ?w) =
      (Unlocked,
       (emit (ConsoleLog ''Unlock sync'')
          (setupAutoUpdateCheck (emit (NotifySuccess SYNC_SUCCESS_MESSAGE) ?s3)))
       \<lparr>syncLock := False\<rparr>)"
    by blast
  from handlers_run_in_order [OF l' g' d1 d2' d3 f1', of ?s2' ?s2' "''install failed''" ?s2' ?s2'] f2'
  have 2: "sync store_env (activated ?w') = (Stalled, ?s2')"
    by blast
  show ?thesis
    unfolding 1 2 by (simp add: engine_defs store_defs SYNC_SUCCESS_MESSAGE_def)
qed

section \<open>Notification and scheduling\<close>

lemma setupAutoUpdateCheck_armed: "truthy (autocheckTimer (setupAutoUpdateCheck s))"
  by (simp add: setupAutoUpdateCheck_def setInterval_def Let_def)

text \<open>
  C5, as amended. On a pass in which the detector answers and every handler's promise
  is fulfilled, the success notification is emitted if and only if the number of change
  records is greater than zero, and the scheduler is armed in either case: the timer is
  armed after the pass, and one interval timer is started when none was armed before.
\<close>

theorem sync_success_notifies_and_arms:
  assumes "\<not> syncLock s"
    and "getSyncChanges env (world s) = (Inr changes, w1)"
    and "applyChanges env changes ((emit Call_getSyncChanges (take_lock s))\<lparr>world := w1\<rparr>) = (Fulfilled n, s2)"
  shows "fst (sync env s) = Unlocked \<and>
         trace (snd (sync env s)) =
           trace s2 @ (if 0 < length changes then [NotifySuccess SYNC_SUCCESS_MESSAGE] else []) @
           [ConsoleLog ''Unlock sync''] \<and>
         truthy (autocheckTimer (snd (sync env s))) \<and>
         timers (snd (sync env s)) =
           (if truthy (autocheckTimer s2) then timers s2 else timers s2 @ [Suc (lastTimer s2)]) \<and>
         \<not> syncLock (snd (sync env s))"
proof -
  have n: "n = length changes"
    using assms(3) by (simp add: applyChanges_def split: prod.splits option.splits)
  let ?s3 = "setupAutoUpdateCheck
        (if 0 < length changes then emit (NotifySuccess SYNC_SUCCESS_MESSAGE) s2 else s2)"
  have w: "world (take_lock s) = world s"
    by (simp add: take_lock_def emit_def)
  have "call_async Call_getSyncChanges (getSyncChanges env) (take_lock s) =
      (Fulfilled changes, (emit Call_getSyncChanges (take_lock s))\<lparr>world := w1\<rparr>)"
    using assms(2) by (simp add: call_async_def w)
  then have "promise_then (call_async Call_getSyncChanges (getSyncChanges env)) (applyChanges env)
      (take_lock s) = (Fulfilled n, s2)"
    using assms(3) by (simp add: promise_then_Fulfilled)
  then have "promise_then
      (promise_then (call_async Call_getSyncChanges (getSyncChanges env)) (applyChanges env))
      notifyAndSchedule (take_lock s) = (Fulfilled (), ?s3)"
    by (simp add: promise_then_Fulfilled notifyAndSchedule_def n)
  then have eq: "sync env s = (Unlocked, (emit (ConsoleLog ''Unlock sync'') ?s3)\<lparr>syncLock := False\<rparr>)"
    using assms(1) by (simp add: sync_def sync_pipeline_def)
  have t: "truthy (autocheckTimer ?s3)"
    by (rule setupAutoUpdateCheck_armed)
  show ?thesis
    unfolding eq using t
    by (simp add: emit_def) (simp add: setupAutoUpdateCheck_def setInterval_def Let_def emit_def)
qed

theorem sync_success_notifies_and_arms_witness:
  "\<not> syncLock (activated store0) \<and>
   getSyncChanges store_env (world (activated store0)) = (Inr [], store0) \<and>
   fst (sync store_env (activated store0)) = Unlocked \<and>
   trace (snd (sync store_env (activated store0))) =
     [ConsoleLog ''Sync lock'', Call_getSyncChanges, ConsoleLog ''Unlock sync''] \<and>
   truthy (autocheckTimer (snd (sync store_env (activated store0)))) \<and>
   timers (snd (sync store_env (activated store0))) = [1] \<and>
   \<not> syncLock (snd (sync store_env (activated store0))) \<and>
   getSyncChanges store_env
     (world (activated (store0\<lparr>detected := [mk_change FirstTimeConnect []]\<rparr>))) =
     (Inr [mk_change FirstTimeConnect []], store0\<lparr>detected := [mk_change FirstTimeConnect []]\<rparr>) \<and>
   fst (sync store_env (activated (store0\<lparr>detected := [mk_change FirstTimeConnect []]\<rparr>))) =
     Unlocked \<and>
   trace (snd (sync store_env (activated (store0\<lparr>detected := [mk_change FirstTimeConnect []]\<rparr>)))) =
     [ConsoleLog ''Sync lock'', Call_getSyncChanges,
      ConsoleLogChanges [mk_change FirstTimeConnect []],
      Call_getFiles, Call_saveAtomSettings ''tabs'', Call_setLastUpdate 6,
      NotifySuccess SYNC_SUCCESS_MESSAGE, ConsoleLog ''Unlock sync''] \<and>
   timers (snd (sync store_env (activated (store0\<lparr>detected := [mk_change FirstTimeConnect []]\<rparr>)))) =
     [1]"
proof -
  let ?s2 = "(emit Call_getSyncChanges (take_lock (activated store0)))\<lparr>world := store0\<rparr>"
  let ?w = "store0\<lparr>detected := [mk_change FirstTimeConnect []]\<rparr>"
  let ?t1 = "(emit Call_getSyncChanges (take_lock (activated ?w)))\<lparr>world := ?w\<rparr>"
  let ?t2 = "(activated (?w\<lparr>localLastUpdate := 6, remoteLastUpdate := 6, remoteAnswers := 8\<rparr>))
      \<lparr>syncLock := True,
        trace := [ConsoleLog ''Sync lock'', Call_getSyncChanges,
                  ConsoleLogChanges [mk_change FirstTimeConnect []],
                  Call_getFiles, Call_saveAtomSettings ''tabs'', Call_setLastUpdate 6]\<rparr>"
  have a: "\<not> syncLock (activated store0)"
    by (simp add: activated_def)
  have b: "getSyncChanges store_env (world (activated store0)) = (Inr [], store0)"
    by (simp add: store_defs)
  have c: "applyChanges store_env [] ?s2 = (Fulfilled 0, ?s2)"
    by (simp add: applyChanges_def)
  have a': "\<not> syncLock (activated ?w)"
    by (simp add: activated_def)
  have b': "getSyncChanges store_env (world (activated ?w)) = (Inr [mk_change FirstTimeConnect []], ?w)"
    by (simp add: store_defs)
  have c': "applyChanges store_env [mk_change FirstTimeConnect []] ?t1 = (Fulfilled 1, ?t2)"
    by (simp add: engine_defs store_defs)
  from sync_success_notifies_and_arms [OF a b c] a b
  have 1: "fst (sync store_env (activated store0)) = Unlocked \<and>
   trace (snd (sync store_env (activated store0))) =
     [ConsoleLog ''Sync lock'', Call_getSyncChanges, ConsoleLog ''Unlock sync''] \<and>
   truthy (autocheckTimer (snd (sync store_env (activated store0)))) \<and>
   timers (snd (sync store_env (activated store0))) = [1] \<and>
   \<not> syncLock (snd (sync store_env (activated store0)))"
    by (simp add: emit_def take_lock_def activated_def)
  from sync_success_notifies_and_arms [OF a' b' c']
  have 2: "fst (sync store_env (activated ?w)) = Unlocked \<and>
   trace (snd (sync store_env (activated ?w))) =
     [ConsoleLog ''Sync lock'', Call_getSyncChanges,
      ConsoleLogChanges [mk_change FirstTimeConnect []],
      Call_getFiles, Call_saveAtomSettings ''tabs'', Call_setLastUpdate 6,
      NotifySuccess SYNC_SUCCESS_MESSAGE, ConsoleLog ''Unlock sync''] \<and>
   timers (snd (sync store_env (activated ?w))) = [1]"
    by (simp add: activated_def)
  from a b b' 1 2 show ?thesis
    by simp
qed

text \<open>
  C5 as stated says that a successful pass with no change record does not newly arm
  the timer. On the code it does: after activation, with a detector that reports
  nothing, the pass ends unlocked, without notification, and an interval timer runs.
\<close>

theorem sync_empty_pass_arms_timer:
  "sync store_env (activated store0) =
     (Unlocked,
      \<lparr>syncLock = False, autocheckTimer = TimerHandle 1, timers = [1], lastTimer = 1,
       world = store0,
       trace = [ConsoleLog ''Sync lock'', Call_getSyncChanges, ConsoleLog ''Unlock sync'']\<rparr>)
   \<and> detected store0 = []
   \<and> autocheckTimer (activated store0) = TimerUndefined
   \<and> timers (activated store0) = []"
  by (simp add: engine_defs store_defs)

section \<open>Backup\<close>

text \<open>
  C6, as amended. Every call of \<^verbatim>\<open>backup\<close> ends in one of three ways. When the remote
  save is fulfilled with \<^verbatim>\<open>success === true\<close>, the promise is fulfilled and the
  returned \<^verbatim>\<open>lastUpdate\<close> has been written to the local store. When the remote save is
  fulfilled with another \<^verbatim>\<open>success\<close>, the promise is fulfilled and nothing has been
  written to the local store. When the remote save is rejected, the promise is rejected
  with the same error and nothing has been written to the local store.
\<close>

theorem backup_outcomes:
  "(saveAtomSettings env (getFiles env (world s)) (world s) = (Inr result, w') \<and> success result \<longrightarrow>
      backup env s =
        (Fulfilled (),
         s\<lparr>world := setLastUpdate env (result_lastUpdate result) w',
           trace := trace s @ [Call_getFiles, Call_saveAtomSettings (getFiles env (world s)),
                               Call_setLastUpdate (result_lastUpdate result)]\<rparr>)) \<and>
   (saveAtomSettings env (getFiles env (world s)) (world s) = (Inr result, w') \<and> \<not> success result \<longrightarrow>
      backup env s =
        (Fulfilled (),
         s\<lparr>world := w',
           trace := trace s @ [Call_getFiles, Call_saveAtomSettings (getFiles env (world s))]\<rparr>)) \<and>
   (saveAtomSettings env (getFiles env (world s)) (world s) = (Inl e, w') \<longrightarrow>
      backup env s =
        (Rejected e,
         s\<lparr>world := w',
           trace := trace s @ [Call_getFiles, Call_saveAtomSettings (getFiles env (world s)),
                               ConsoleError ''atom-package-sync error backing up data: '' e]\<rparr>))"
  by (simp add: backup_def Let_def promise_catch_def promise_then_def call_async_def
      call_sync_def emit_def)

theorem backup_outcomes_witness:
  "backup store_env (activated store0) =
     (Fulfilled (),
      (activated (store0\<lparr>localLastUpdate := 6, remoteLastUpdate := 6, remoteAnswers := 8\<rparr>))
      \<lparr>trace := [Call_getFiles, Call_saveAtomSettings ''tabs'', Call_setLastUpdate 6]\<rparr>) \<and>
   backup store_env (activated (store0\<lparr>saveRefused := True\<rparr>)) =
     (Fulfilled (),
      (activated (store0\<lparr>saveRefused := True, remoteAnswers := 8\<rparr>))
      \<lparr>trace := [Call_getFiles, Call_saveAtomSettings ''tabs'']\<rparr>) \<and>
   backup store_env (activated (store0\<lparr>remoteAnswers := 0\<rparr>)) =
     (Rejected ''remote down'',
      (activated (store0\<lparr>remoteAnswers := 0\<rparr>))
      \<lparr>trace := [Call_getFiles, Call_saveAtomSettings ''tabs'',
                 ConsoleError ''atom-package-sync error backing up data: '' ''remote down'']\<rparr>)"
proof -
  have a: "saveAtomSettings store_env (getFiles store_env (world (activated store0)))
             (world (activated store0)) =
           (Inr \<lparr>success = True, result_lastUpdate = 6\<rparr>,
            store0\<lparr>remoteLastUpdate := 6, remoteAnswers := 8\<rparr>) \<and>
           success \<lparr>success = True, result_lastUpdate = 6\<rparr>"
    by (simp add: store_defs)
  have b: "saveAtomSettings store_env
             (getFiles store_env (world (activated (store0\<lparr>saveRefused := True\<rparr>))))
             (world (activated (store0\<lparr>saveRefused := True\<rparr>))) =
           (Inr \<lparr>success = False, result_lastUpdate = 5\<rparr>,
            store0\<lparr>saveRefused := True, remoteAnswers := 8\<rparr>) \<and>
           \<not> success \<lparr>success = False, result_lastUpdate = 5\<rparr>"
    by (simp add: store_defs)
  have c: "saveAtomSettings store_env
             (getFiles store_env (world (activated (store0\<lparr>remoteAnswers := 0\<rparr>))))
             (world (activated (store0\<lparr>remoteAnswers := 0\<rparr>))) =
           (Inl ''remote down'', store0\<lparr>remoteAnswers := 0\<rparr>)"
    by (simp add: store_defs)
  from backup_outcomes [of store_env "activated store0"
         "\<lparr>success = True, result_lastUpdate = 6\<rparr>"
         "store0\<lparr>remoteLastUpdate := 6, remoteAnswers := 8\<rparr>"
         "''remote down''"] a
  have 1: "backup store_env (activated store0) =
     (Fulfilled (),
      (activated (store0\<lparr>localLastUpdate := 6, remoteLastUpdate := 6, remoteAnswers := 8\<rparr>))
      \<lparr>trace := [Call_getFiles, Call_saveAtomSettings ''tabs'', Call_setLastUpdate 6]\<rparr>)"
    by (simp add: store_defs)
  from backup_outcomes [of store_env "activated (store0\<lparr>saveRefused := True\<rparr>)"
         "\<lparr>success = False, result_lastUpdate = 5\<rparr>"
         "store0\<lparr>saveRefused := True, remoteAnswers := 8\<rparr>"
         "''remote down''"] b
  have 2: "backup store_env (activated (store0\<lparr>saveRefused := True\<rparr>)) =
     (Fulfilled (),
      (activated (store0\<lparr>saveRefused := True, remoteAnswers := 8\<rparr>))
      \<lparr>trace := [Call_getFiles, Call_saveAtomSettings ''tabs'']\<rparr>)"
    by (simp add: store_defs)
  from backup_outcomes [of store_env "activated (store0\<lparr>remoteAnswers := 0\<rparr>)"
         "\<lparr>success = False, result_lastUpdate = 5\<rparr>" "store0\<lparr>remoteAnswers := 0\<rparr>"
         "''remote down''"] c
  have 3: "backup store_env (activated (store0\<lparr>remoteAnswers := 0\<rparr>)) =
     (Rejected ''remote down'',
      (activated (store0\<lparr>remoteAnswers := 0\<rparr>))
      \<lparr>trace := [Call_getFiles, Call_saveAtomSettings ''tabs'',
                 ConsoleError ''atom-package-sync error backing up data: '' ''remote down'']\<rparr>)"
    by (simp add: store_defs)
  from 1 2 3 show ?thesis by simp
qed

text \<open>
  C6 as stated leaves no third outcome. On the code there is one: when the remote store
  answers the save with \<^verbatim>\<open>success: false\<close> and \<^verbatim>\<open>lastUpdate\<close> 5, the promise of
  \<^verbatim>\<open>backup\<close> is fulfilled, \<^verbatim>\<open>setLastUpdate\<close> is not called and the local
  \<^verbatim>\<open>lastUpdate\<close> is still 3.
\<close>

theorem backup_refused_save_resolves:
  "saveAtomSettings store_env ''tabs'' (store0\<lparr>saveRefused := True\<rparr>) =
     (Inr \<lparr>success = False, result_lastUpdate = 5\<rparr>,
            store0\<lparr>saveRefused := True, remoteAnswers := 8\<rparr>) \<and>
   fst (backup store_env (activated (store0\<lparr>saveRefused := True\<rparr>))) = Fulfilled () \<and>
   trace (snd (backup store_env (activated (store0\<lparr>saveRefused := True\<rparr>)))) =
     [Call_getFiles, Call_saveAtomSettings ''tabs''] \<and>
   localLastUpdate (world (snd (backup store_env (activated (store0\<lparr>saveRefused := True\<rparr>))))) = 3"
  by (simp add: engine_defs store_defs)

section \<open>The dispatch table\<close>

text \<open>
  C7. For a \<open>NewAtomInstance\<close> record the engine runs \<open>handlePackageAdd\<close>, then
  \<open>applyPackageSettings\<close>, then \<open>backup\<close>: each step starts in the state left by
  the fulfilled step before it, and \<^verbatim>\<open>next\<close> is called in the state that \<open>backup\<close>
  left. A step that is rejected ends the handler in the state that step left, so the
  steps after it do not run. The same on a whole pass of \<open>sync\<close> on which the
  detector reports this one record: the pass ends unlocked in the state left by the
  three steps, and stops in the state left by the first step that is rejected.
\<close>

theorem new_instance_composite:
  assumes "status c = NewAtomInstance"
  shows
   "(handlePackageAdd env (packages c) s = (Rejected e, sa) \<longrightarrow>
       iteratee env c s = (NoNext, sa)) \<and>
    (handlePackageAdd env (packages c) s = (Fulfilled (), sa) \<and>
     applyPackageSettings env (packageSettings c) sa = (Rejected e, sb) \<longrightarrow>
       iteratee env c s = (NoNext, sb)) \<and>
    (handlePackageAdd env (packages c) s = (Fulfilled (), sa) \<and>
     applyPackageSettings env (packageSettings c) sa = (Fulfilled (), sb) \<and>
     backup env sb = (Rejected e, sc) \<longrightarrow>
       iteratee env c s = (NoNext, sc)) \<and>
    (handlePackageAdd env (packages c) s = (Fulfilled (), sa) \<and>
     applyPackageSettings env (packageSettings c) sa = (Fulfilled (), sb) \<and>
     backup env sb = (Fulfilled (), sc) \<longrightarrow>
       iteratee env c s = (Next None, sc)) \<and>
    (\<not> syncLock t \<and> getSyncChanges env (world t) = (Inr [c], w1) \<and>
     s = emit (ConsoleLogChanges [c]) ((emit Call_getSyncChanges (take_lock t))\<lparr>world := w1\<rparr>) \<longrightarrow>
       (handlePackageAdd env (packages c) s = (Rejected e, sa) \<longrightarrow>
          sync env t = (Stalled, sa)) \<and>
       (handlePackageAdd env (packages c) s = (Fulfilled (), sa) \<and>
        applyPackageSettings env (packageSettings c) sa = (Rejected e, sb) \<longrightarrow>
          sync env t = (Stalled, sb)) \<and>
       (handlePackageAdd env (packages c) s = (Fulfilled (), sa) \<and>
        applyPackageSettings env (packageSettings c) sa = (Fulfilled (), sb) \<and>
        backup env sb = (Rejected e, sc) \<longrightarrow>
          sync env t = (Stalled, sc)) \<and>
       (handlePackageAdd env (packages c) s = (Fulfilled (), sa) \<and>
        applyPackageSettings env (packageSettings c) sa = (Fulfilled (), sb) \<and>
        backup env sb = (Fulfilled (), sc) \<longrightarrow>
          sync env t =
            (Unlocked,
             (emit (ConsoleLog ''Unlock sync'')
                (setupAutoUpdateCheck (emit (NotifySuccess SYNC_SUCCESS_MESSAGE) sc)))
             \<lparr>syncLock := False\<rparr>)))"
proof -
  let ?f = "promise_then
              (promise_then (handlePackageAdd env (packages c))
                 (\<lambda>_. applyPackageSettings env (packageSettings c)))
              (\<lambda>_. backup env)"
  from assms have d: "dispatch env c = Some ?f"
    by (simp add: dispatch_def)
  have i1: "iteratee env c s = (NoNext, sa)"
    if "handlePackageAdd env (packages c) s = (Rejected e, sa)"
  proof -
    from that have "?f s = (Rejected e, sa)" by (simp add: promise_then_def)
    with d show ?thesis by (rule iteratee_Rejected)
  qed
  have i2: "iteratee env c s = (NoNext, sb)"
    if "handlePackageAdd env (packages c) s = (Fulfilled (), sa)"
      and "applyPackageSettings env (packageSettings c) sa = (Rejected e, sb)"
  proof -
    from that have "?f s = (Rejected e, sb)" by (simp add: promise_then_def)
    with d show ?thesis by (rule iteratee_Rejected)
  qed
  have i3: "iteratee env c s = (NoNext, sc)"
    if "handlePackageAdd env (packages c) s = (Fulfilled (), sa)"
      and "applyPackageSettings env (packageSettings c) sa = (Fulfilled (), sb)"
      and "backup env sb = (Rejected e, sc)"
  proof -
    from that have "?f s = (Rejected e, sc)" by (simp add: promise_then_def)
    with d show ?thesis by (rule iteratee_Rejected)
  qed
  have i4: "iteratee env c s = (Next None, sc)"
    if "handlePackageAdd env (packages c) s = (Fulfilled (), sa)"
      and "applyPackageSettings env (packageSettings c) sa = (Fulfilled (), sb)"
      and "backup env sb = (Fulfilled (), sc)"
  proof -
    from that have "?f s = (Fulfilled (), sc)" by (simp add: promise_then_def)
    with d show ?thesis by (rule iteratee_Fulfilled)
  qed
  have pass: "sync env t =
      (case iteratee env c s of
         (Next None, s') \<Rightarrow>
           (Unlocked,
            (emit (ConsoleLog ''Unlock sync'')
               (setupAutoUpdateCheck (emit (NotifySuccess SYNC_SUCCESS_MESSAGE) s')))
            \<lparr>syncLock := False\<rparr>)
       | (Next (Some x), s') \<Rightarrow>
           (ErrorUnlocked x, (emit (ConsoleLog ''Error Unlock sync'') s')\<lparr>syncLock := False\<rparr>)
       | (NoNext, s') \<Rightarrow> (Stalled, s'))"
    if "\<not> syncLock t" and "getSyncChanges env (world t) = (Inr [c], w1)"
      and "s = emit (ConsoleLogChanges [c]) ((emit Call_getSyncChanges (take_lock t))\<lparr>world := w1\<rparr>)"
    unfolding sync_pass_eq [OF that(1,2)]
    by (simp add: applyChanges_def that(3) split: prod.splits next_call.splits option.splits)
  have st: "sync env t = (Stalled, x)"
    if "\<not> syncLock t" and "getSyncChanges env (world t) = (Inr [c], w1)"
      and "s = emit (ConsoleLogChanges [c]) ((emit Call_getSyncChanges (take_lock t))\<lparr>world := w1\<rparr>)"
      and "iteratee env c s = (NoNext, x)" for x
    using pass [OF that(1,2,3)] that(4) by simp
  have un: "sync env t =
      (Unlocked,
       (emit (ConsoleLog ''Unlock sync'')
          (setupAutoUpdateCheck (emit (NotifySuccess SYNC_SUCCESS_MESSAGE) x)))
       \<lparr>syncLock := False\<rparr>)"
    if "\<not> syncLock t" and "getSyncChanges env (world t) = (Inr [c], w1)"
      and "s = emit (ConsoleLogChanges [c]) ((emit Call_getSyncChanges (take_lock t))\<lparr>world := w1\<rparr>)"
      and "iteratee env c s = (Next None, x)" for x
    using pass [OF that(1,2,3)] that(4) by simp
  show ?thesis
    using i1 i2 i3 i4 st un by blast
qed

theorem new_instance_composite_witness:
  "status (mk_change NewAtomInstance [''minimap'']) = NewAtomInstance \<and>
   sync store_env (activated (store0\<lparr>detected := [mk_change NewAtomInstance [''minimap'']]\<rparr>)) =
     (Unlocked,
      \<lparr>syncLock = False, autocheckTimer = TimerHandle 1, timers = [1], lastTimer = 1,
       world = store0\<lparr>installed := [''linter'', ''minimap''], localSettings := ''spaces'',
                 localLastUpdate := 6, remoteLastUpdate := 6,
                 detected := [mk_change NewAtomInstance [''minimap'']], remoteAnswers := 6\<rparr>,
       trace = [ConsoleLog ''Sync lock'', Call_getSyncChanges,
                ConsoleLogChanges [mk_change NewAtomInstance [''minimap'']],
                Call_installMissingPackages [''minimap''], Call_fetchAtomSettingsInfo,
                Call_setLastUpdate 5,
                Call_applyPackageSettings ''spaces'', Call_fetchAtomSettingsInfo,
                Call_setLastUpdate 5,
                Call_getFiles, Call_saveAtomSettings ''spaces'', Call_setLastUpdate 6,
                NotifySuccess ''Packages synced successfully'', ConsoleLog ''Unlock sync'']\<rparr>) \<and>
   sync store_env
     (activated (store0\<lparr>detected := [mk_change NewAtomInstance [''minimap'']],
                  remoteAnswers := 2\<rparr>)) =
     (Stalled,
      \<lparr>syncLock = True, autocheckTimer = TimerUndefined, timers = [], lastTimer = 0,
       world = store0\<lparr>installed := [''linter'', ''minimap''], localSettings := ''spaces'',
                 localLastUpdate := 5,
                 detected := [mk_change NewAtomInstance [''minimap'']], remoteAnswers := 0\<rparr>,
       trace = [ConsoleLog ''Sync lock'', Call_getSyncChanges,
                ConsoleLogChanges [mk_change NewAtomInstance [''minimap'']],
                Call_installMissingPackages [''minimap''], Call_fetchAtomSettingsInfo,
                Call_setLastUpdate 5,
                Call_applyPackageSettings ''spaces'', Call_fetchAtomSettingsInfo,
                Call_setLastUpdate 5,
                Call_getFiles, Call_saveAtomSettings ''spaces'',
                ConsoleError ''atom-package-sync error backing up data: '' ''remote down'']\<rparr>) \<and>
   sync store_env
     (activated (store0\<lparr>detected := [mk_change NewAtomInstance [''minimap'']],
                  remoteAnswers := 1\<rparr>)) =
     (Stalled,
      \<lparr>syncLock = True, autocheckTimer = TimerUndefined, timers = [], lastTimer = 0,
       world = store0\<lparr>installed := [''linter'', ''minimap''], localSettings := ''spaces'',
                 localLastUpdate := 5,
                 detected := [mk_change NewAtomInstance [''minimap'']], remoteAnswers := 0\<rparr>,
       trace = [ConsoleLog ''Sync lock'', Call_getSyncChanges,
                ConsoleLogChanges [mk_change NewAtomInstance [''minimap'']],
                Call_installMissingPackages [''minimap''], Call_fetchAtomSettingsInfo,
                Call_setLastUpdate 5,
                Call_applyPackageSettings ''spaces'', Call_fetchAtomSettingsInfo]\<rparr>) \<and>
   status (mk_change NewAtomInstance [''broken'']) = NewAtomInstance \<and>
   sync store_env (activated (store0\<lparr>detected := [mk_change NewAtomInstance [''broken'']]\<rparr>)) =
     (Stalled,
      \<lparr>syncLock = True, autocheckTimer = TimerUndefined, timers = [], lastTimer = 0,
       world = store0\<lparr>detected := [mk_change NewAtomInstance [''broken'']]\<rparr>,
       trace = [ConsoleLog ''Sync lock'', Call_getSyncChanges,
                ConsoleLogChanges [mk_change NewAtomInstance [''broken'']],
                Call_installMissingPackages [''broken'']]\<rparr>) \<and>
   iteratee store_env (mk_change NewAtomInstance [''minimap'']) (activated store0) =
     (Next None,
      (activated (store0\<lparr>installed := [''linter'', ''minimap''], localSettings := ''spaces'',
                  localLastUpdate := 6, remoteLastUpdate := 6, remoteAnswers := 6\<rparr>))
      \<lparr>trace := [Call_installMissingPackages [''minimap''], Call_fetchAtomSettingsInfo,
                 Call_setLastUpdate 5, Call_applyPackageSettings ''spaces'',
                 Call_fetchAtomSettingsInfo, Call_setLastUpdate 5,
                 Call_getFiles, Call_saveAtomSettings ''spaces'', Call_setLastUpdate 6]\<rparr>)"
proof -
  let ?cm = "mk_change NewAtomInstance [''minimap'']"
  let ?cb = "mk_change NewAtomInstance [''broken'']"
  have stm: "status ?cm = NewAtomInstance" and stb: "status ?cb = NewAtomInstance"
    by (simp_all add: mk_change_def)
  have pk: "packages ?cm = [''minimap'']" "packageSettings ?cm = ''spaces''"
    "packages ?cb = [''broken'']"
    by (simp_all add: mk_change_def)
  (* all three steps fulfilled *)
  let ?w4 = "store0\<lparr>detected := [?cm]\<rparr>"
  let ?s4 = "emit (ConsoleLogChanges [?cm])
               ((emit Call_getSyncChanges (take_lock (activated ?w4)))\<lparr>world := ?w4\<rparr>)"
  let ?a4 = "snd (handlePackageAdd store_env [''minimap''] ?s4)"
  let ?b4 = "snd (applyPackageSettings store_env ''spaces'' ?a4)"
  let ?c4 = "snd (backup store_env ?b4)"
  have h4: "\<not> syncLock (activated ?w4)"
    "getSyncChanges store_env (world (activated ?w4)) = (Inr [?cm], ?w4)"
    "handlePackageAdd store_env (packages ?cm) ?s4 = (Fulfilled (), ?a4)"
    "applyPackageSettings store_env (packageSettings ?cm) ?a4 = (Fulfilled (), ?b4)"
    "backup store_env ?b4 = (Fulfilled (), ?c4)"
    by (simp_all add: engine_defs store_defs)
  from new_instance_composite [OF stm, of store_env ?s4 "''remote down''" ?a4 ?b4 ?c4
      "activated ?w4" ?w4] h4
  have 4: "sync store_env (activated ?w4) =
      (Unlocked,
       (emit (ConsoleLog ''Unlock sync'')
          (setupAutoUpdateCheck (emit (NotifySuccess SYNC_SUCCESS_MESSAGE) ?c4)))
       \<lparr>syncLock := False\<rparr>)"
    by blast
  (* the backup rejected *)
  let ?w3 = "store0\<lparr>detected := [?cm], remoteAnswers := 2\<rparr>"
  let ?s3 = "emit (ConsoleLogChanges [?cm])
               ((emit Call_getSyncChanges (take_lock (activated ?w3)))\<lparr>world := ?w3\<rparr>)"
  let ?a3 = "snd (handlePackageAdd store_env [''minimap''] ?s3)"
  let ?b3 = "snd (applyPackageSettings store_env ''spaces'' ?a3)"
  let ?c3 = "snd (backup store_env ?b3)"
  have h3: "\<not> syncLock (activated ?w3)"
    "getSyncChanges store_env (world (activated ?w3)) = (Inr [?cm], ?w3)"
    "handlePackageAdd store_env (packages ?cm) ?s3 = (Fulfilled (), ?a3)"
    "applyPackageSettings store_env (packageSettings ?cm) ?a3 = (Fulfilled (), ?b3)"
    "backup store_env ?b3 = (Rejected ''remote down'', ?c3)"
    by (simp_all add: engine_defs store_defs)
  from new_instance_composite [OF stm, of store_env ?s3 "''remote down''" ?a3 ?b3 ?c3
      "activated ?w3" ?w3] h3
  have 3: "sync store_env (activated ?w3) = (Stalled, ?c3)"
    by blast
  (* the settings step rejected *)
  let ?w2 = "store0\<lparr>detected := [?cm], remoteAnswers := 1\<rparr>"
  let ?s2 = "emit (ConsoleLogChanges [?cm])
               ((emit Call_getSyncChanges (take_lock (activated ?w2)))\<lparr>world := ?w2\<rparr>)"
  let ?a2 = "snd (handlePackageAdd store_env [''minimap''] ?s2)"
  let ?b2 = "snd (applyPackageSettings store_env ''spaces'' ?a2)"
  have h2: "\<not> syncLock (activated ?w2)"
    "getSyncChanges store_env (world (activated ?w2)) = (Inr [?cm], ?w2)"
    "handlePackageAdd store_env (packages ?cm) ?s2 = (Fulfilled (), ?a2)"
    "applyPackageSettings store_env (packageSettings ?cm) ?a2 = (Rejected ''remote down'', ?b2)"
    by (simp_all add: engine_defs store_defs)
  from new_instance_composite [OF stm, of store_env ?s2 "''remote down''" ?a2 ?b2 ?b2
      "activated ?w2" ?w2] h2
  have 2: "sync store_env (activated ?w2) = (Stalled, ?b2)"
    by blast
  (* the installation rejected *)
  let ?w1 = "store0\<lparr>detected := [?cb]\<rparr>"
  let ?s1 = "emit (ConsoleLogChanges [?cb])
               ((emit Call_getSyncChanges (take_lock (activated ?w1)))\<lparr>world := ?w1\<rparr>)"
  let ?a1 = "snd (handlePackageAdd store_env [''broken''] ?s1)"
  have h1: "\<not> syncLock (activated ?w1)"
    "getSyncChanges store_env (world (activated ?w1)) = (Inr [?cb], ?w1)"
    "handlePackageAdd store_env (packages ?cb) ?s1 = (Rejected ''install failed'', ?a1)"
    by (simp_all add: engine_defs store_defs)
  from new_instance_composite [OF stb, of store_env ?s1 "''install failed''" ?a1 ?a1 ?a1
      "activated ?w1" ?w1] h1
  have 1: "sync store_env (activated ?w1) = (Stalled, ?a1)"
    by blast
  (* the handler alone *)
  let ?a0 = "snd (handlePackageAdd store_env [''minimap''] (activated store0))"
  let ?b0 = "snd (applyPackageSettings store_env ''spaces'' ?a0)"
  let ?c0 = "snd (backup store_env ?b0)"
  have h0: "handlePackageAdd store_env (packages ?cm) (activated store0) = (Fulfilled (), ?a0)"
    "applyPackageSettings store_env (packageSettings ?cm) ?a0 = (Fulfilled (), ?b0)"
    "backup store_env ?b0 = (Fulfilled (), ?c0)"
    by (simp_all add: engine_defs store_defs)
  from new_instance_composite [OF stm, of store_env "activated store0" "''remote down''"
      ?a0 ?b0 ?c0 "activated store0" store0] h0
  have 0: "iteratee store_env ?cm (activated store0) = (Next None, ?c0)"
    by blast
  show ?thesis
    unfolding 0 1 2 3 4
    by (simp add: engine_defs store_defs SYNC_SUCCESS_MESSAGE_def)
qed

text \<open>
  C8. The dispatch table: the four client-side statuses go to \<open>backup\<close>,
  \<open>AddPackagesFromServer\<close> to \<open>handlePackageAdd\<close> with the record's packages,
  \<open>RemovePackagesFromServer\<close> to \<open>handlePackageRemove\<close> with the record's packages,
  \<open>PackageSettingsChangedFromServer\<close> to \<open>applyPackageSettings\<close> with the record's
  settings. (The spec writes Extensions where the code writes Packages.)
\<close>

theorem dispatch_table:
  "dispatch env (c\<lparr>status := FirstTimeConnect\<rparr>) = Some (backup env) \<and>
   dispatch env (c\<lparr>status := AddPackagesFromClient\<rparr>) = Some (backup env) \<and>
   dispatch env (c\<lparr>status := RemovePackagesFromClient\<rparr>) = Some (backup env) \<and>
   dispatch env (c\<lparr>status := SettingsChangedFromClient\<rparr>) = Some (backup env) \<and>
   dispatch env (c\<lparr>status := AddPackagesFromServer\<rparr>) = Some (handlePackageAdd env (packages c)) \<and>
   dispatch env (c\<lparr>status := RemovePackagesFromServer\<rparr>) =
     Some (handlePackageRemove env (packages c)) \<and>
   dispatch env (c\<lparr>status := PackageSettingsChangedFromServer\<rparr>) =
     Some (applyPackageSettings env (packageSettings c))"
  by (simp add: dispatch_def call_with_extra_def fun_eq_iff)

section \<open>The recorded lastUpdate\<close>

text \<open>
  C10. For a \<open>PackageSettingsChangedFromServer\<close> record the handler is
  \<open>applyPackageSettings\<close> on the settings of the record alone: the \<open>lastUpdate\<close> of
  the record, passed as a second argument, has no effect on the handler. The value that
  the handler writes with \<open>setLastUpdate\<close> is the \<open>lastUpdate\<close> of the answer of
  \<open>fetchAtomSettingsInfo\<close>, called after the settings were applied; when that call is
  rejected nothing is written.
\<close>

theorem settings_lastUpdate_from_fetch:
  assumes "status c = PackageSettingsChangedFromServer"
  shows "dispatch env c = Some (applyPackageSettings env (packageSettings c)) \<and>
         dispatch env (c\<lparr>lastUpdate := v\<rparr>) = dispatch env c \<and>
         (fetchAtomSettingsInfo env (asm_applyPackageSettings env ps (world s)) = (Inr info, w') \<longrightarrow>
            applyPackageSettings env ps s =
              (Fulfilled (),
               s\<lparr>world := setLastUpdate env (info_lastUpdate info) w',
                 trace := trace s @ [Call_applyPackageSettings ps, Call_fetchAtomSettingsInfo,
                                     Call_setLastUpdate (info_lastUpdate info)]\<rparr>)) \<and>
         (fetchAtomSettingsInfo env (asm_applyPackageSettings env ps (world s)) = (Inl e, w'') \<longrightarrow>
            applyPackageSettings env ps s =
              (Rejected e,
               s\<lparr>world := w'',
                 trace := trace s @ [Call_applyPackageSettings ps, Call_fetchAtomSettingsInfo]\<rparr>))"
  using assms
  by (simp add: dispatch_def call_with_extra_def fun_eq_iff applyPackageSettings_def
      promise_then_def qlFetch_def call_async_def call_sync_def storeLastUpdate_def emit_def)

theorem settings_lastUpdate_from_fetch_witness:
  "status (mk_change PackageSettingsChangedFromServer []) = PackageSettingsChangedFromServer \<and>
   lastUpdate (mk_change PackageSettingsChangedFromServer []) = 4 \<and>
   dispatch store_env (mk_change PackageSettingsChangedFromServer []) =
     Some (applyPackageSettings store_env ''spaces'') \<and>
   dispatch store_env ((mk_change PackageSettingsChangedFromServer [])\<lparr>lastUpdate := 77\<rparr>) =
     dispatch store_env (mk_change PackageSettingsChangedFromServer []) \<and>
   applyPackageSettings store_env ''spaces'' (activated store0) =
     (Fulfilled (),
      (activated (store0\<lparr>localSettings := ''spaces'', localLastUpdate := 5, remoteAnswers := 8\<rparr>))
      \<lparr>trace := [Call_applyPackageSettings ''spaces'', Call_fetchAtomSettingsInfo,
                 Call_setLastUpdate 5]\<rparr>) \<and>
   applyPackageSettings store_env ''spaces'' (activated (store0\<lparr>remoteAnswers := 0\<rparr>)) =
     (Rejected ''remote down'',
      (activated (store0\<lparr>localSettings := ''spaces'', remoteAnswers := 0\<rparr>))
      \<lparr>trace := [Call_applyPackageSettings ''spaces'', Call_fetchAtomSettingsInfo]\<rparr>)"
proof -
  let ?c = "mk_change PackageSettingsChangedFromServer []"
  have st: "status ?c = PackageSettingsChangedFromServer"
    by (simp add: mk_change_def)
  have ok: "fetchAtomSettingsInfo store_env
        (asm_applyPackageSettings store_env ''spaces'' (world (activated store0))) =
      (Inr \<lparr>info_lastUpdate = 5\<rparr>, store0\<lparr>localSettings := ''spaces'', remoteAnswers := 8\<rparr>)"
    by (simp add: store_defs)
  have ko: "fetchAtomSettingsInfo store_env
        (asm_applyPackageSettings store_env ''spaces''
           (world (activated (store0\<lparr>remoteAnswers := 0\<rparr>)))) =
      (Inl ''remote down'', store0\<lparr>localSettings := ''spaces'', remoteAnswers := 0\<rparr>)"
    by (simp add: store_defs)
  from settings_lastUpdate_from_fetch [OF st, of store_env 77 "''spaces''" "activated store0"
      "\<lparr>info_lastUpdate = 5\<rparr>" "store0\<lparr>localSettings := ''spaces'', remoteAnswers := 8\<rparr>"
      "''remote down''" "store0\<lparr>localSettings := ''spaces'', remoteAnswers := 0\<rparr>"] ok
  have 1: "dispatch store_env ?c = Some (applyPackageSettings store_env (packageSettings ?c))"
    and 2: "dispatch store_env (?c\<lparr>lastUpdate := 77\<rparr>) = dispatch store_env ?c"
    and 3: "applyPackageSettings store_env ''spaces'' (activated store0) =
     (Fulfilled (),
      (activated (store0\<lparr>localSettings := ''spaces'', localLastUpdate := 5, remoteAnswers := 8\<rparr>))
      \<lparr>trace := [Call_applyPackageSettings ''spaces'', Call_fetchAtomSettingsInfo,
                 Call_setLastUpdate 5]\<rparr>)"
    by (simp_all add: store_defs)
  from settings_lastUpdate_from_fetch [OF st, of store_env 77 "''spaces''"
      "activated (store0\<lparr>remoteAnswers := 0\<rparr>)"
      "\<lparr>info_lastUpdate = 5\<rparr>" "store0\<lparr>localSettings := ''spaces'', remoteAnswers := 8\<rparr>"
      "''remote down''" "store0\<lparr>localSettings := ''spaces'', remoteAnswers := 0\<rparr>"] ko
  have 4: "applyPackageSettings store_env ''spaces'' (activated (store0\<lparr>remoteAnswers := 0\<rparr>)) =
     (Rejected ''remote down'',
      (activated (store0\<lparr>localSettings := ''spaces'', remoteAnswers := 0\<rparr>))
      \<lparr>trace := [Call_applyPackageSettings ''spaces'', Call_fetchAtomSettingsInfo]\<rparr>)"
    by (simp add: store_defs)
  have "packageSettings ?c = ''spaces''" "lastUpdate ?c = 4"
    by (simp_all add: mk_change_def)
  with st 1 2 3 4 show ?thesis by simp
qed

section \<open>The scheduler\<close>

text \<open>
  C9. Arming is idempotent: \<open>setupAutoUpdateCheck\<close> on an armed timer changes
  nothing, a second call changes nothing after the first, and two calls on a timer that
  is not armed start exactly one interval timer. Disarming is idempotent:
  \<open>stopAutoUpdateCheck\<close> on a disarmed timer changes nothing, and a second call
  changes nothing after the first.
\<close>

theorem scheduler_idempotent:
  fixes s s0 s1 :: "'w state"
  shows "(truthy (autocheckTimer s) \<longrightarrow> setupAutoUpdateCheck s = s) \<and>
   setupAutoUpdateCheck (setupAutoUpdateCheck s) = setupAutoUpdateCheck s \<and>
   (\<not> truthy (autocheckTimer s0) \<longrightarrow>
      timers (setupAutoUpdateCheck (setupAutoUpdateCheck s0)) = timers s0 @ [Suc (lastTimer s0)]) \<and>
   (autocheckTimer s1 = TimerFalse \<longrightarrow> stopAutoUpdateCheck s1 = s1) \<and>
   stopAutoUpdateCheck (stopAutoUpdateCheck s) = stopAutoUpdateCheck s"
proof -
  have armed: "truthy (autocheckTimer x) \<Longrightarrow> setupAutoUpdateCheck x = x" for x :: "'w state"
    by (simp add: setupAutoUpdateCheck_def)
  have idem: "setupAutoUpdateCheck (setupAutoUpdateCheck x) = setupAutoUpdateCheck x"
    for x :: "'w state"
    by (rule armed) (rule setupAutoUpdateCheck_armed)
  have once: "\<not> truthy (autocheckTimer s0) \<Longrightarrow>
      timers (setupAutoUpdateCheck s0) = timers s0 @ [Suc (lastTimer s0)]"
    by (simp add: setupAutoUpdateCheck_def setInterval_def Let_def)
  have off: "autocheckTimer s1 = TimerFalse \<Longrightarrow> stopAutoUpdateCheck s1 = s1"
    by (cases s1) (simp add: stopAutoUpdateCheck_def)
  have stop2: "stopAutoUpdateCheck (stopAutoUpdateCheck s) = stopAutoUpdateCheck s"
    by (simp add: stopAutoUpdateCheck_def)
  from armed [of s] idem [of s] idem [of s0] once off stop2 show ?thesis
    by simp
qed

theorem scheduler_idempotent_witness:
  "truthy (autocheckTimer (setupAutoUpdateCheck (activated store0))) \<and>
   setupAutoUpdateCheck (setupAutoUpdateCheck (activated store0)) =
     setupAutoUpdateCheck (activated store0) \<and>
   \<not> truthy (autocheckTimer (activated store0)) \<and>
   timers (setupAutoUpdateCheck (setupAutoUpdateCheck (activated store0))) = [1] \<and>
   autocheckTimer (stopAutoUpdateCheck (setupAutoUpdateCheck (activated store0))) = TimerFalse \<and>
   timers (stopAutoUpdateCheck (setupAutoUpdateCheck (activated store0))) = [] \<and>
   stopAutoUpdateCheck (stopAutoUpdateCheck (setupAutoUpdateCheck (activated store0))) =
     stopAutoUpdateCheck (setupAutoUpdateCheck (activated store0))"
proof -
  let ?a = "setupAutoUpdateCheck (activated store0)"
  have t: "truthy (autocheckTimer ?a)"
    by (simp add: setupAutoUpdateCheck_def setInterval_def activated_def)
  have u: "\<not> truthy (autocheckTimer (activated store0))"
    by (simp add: activated_def)
  have f: "autocheckTimer (stopAutoUpdateCheck ?a) = TimerFalse"
    by (simp add: stopAutoUpdateCheck_def)
  have e: "timers (stopAutoUpdateCheck ?a) = []"
    by (simp add: stopAutoUpdateCheck_def setupAutoUpdateCheck_def setInterval_def activated_def)
  have z: "timers (activated store0) @ [Suc (lastTimer (activated store0))] = [1]"
    by (simp add: activated_def)
  note th = scheduler_idempotent [of ?a "activated store0" "stopAutoUpdateCheck ?a"]
  from th t have 1: "setupAutoUpdateCheck ?a = ?a" by blast
  from th u z have 2: "timers (setupAutoUpdateCheck ?a) = [1]" by simp
  from th f have 3: "stopAutoUpdateCheck (stopAutoUpdateCheck ?a) = stopAutoUpdateCheck ?a"
    by blast
  from t u f e 1 2 3 show ?thesis by blast
qed

end
